theory Spec2Isabelle
  imports Main "HOL-Library.Word" "HOL-Library.Multiset"
begin

section \<open>The lock statistics profiler (lockstat-solution.py)\<close>

text \<open>
  The program is a BPF text with four probe handlers over six shared tables, and a Python
  driver that attaches the handlers to the pthread mutex functions and prints a report
  every five seconds. The handlers are embedded as functions from the tables before the
  probe fires to the handler's return value and the tables after it.
\<close>

subsection \<open>Data: the structs of the BPF text\<close>

type_synonym u32 = "32 word"
type_synonym u64 = "64 word"

text \<open>C's \<open>int\<close>: a 32-bit word, read as two's complement with \<open>sint\<close>.\<close>

type_synonym c_int = "32 word"

text \<open>
  Several structs of the source share field names (\<open>tid\<close>, \<open>mtx\<close>, \<open>timestamp\<close>); the
  record fields carry a prefix for their struct.
\<close>

record thread_mutex_key_t =
  tmk_tid :: u32
  tmk_mtx :: u64
  tmk_lock_stack_id :: c_int

record thread_mutex_val_t =
  wait_time_ns :: u64
  lock_time_ns :: u64
  enter_count :: u64

record mutex_timestamp_t =
  mts_mtx :: u64
  mts_timestamp :: u64

record mutex_lock_time_key_t =
  ltk_tid :: u32
  ltk_mtx :: u64

record mutex_lock_time_val_t =
  ltv_timestamp :: u64
  ltv_stack_id :: c_int

text \<open>
  The tables. A \<open>BPF_HASH\<close> is a partial map, a \<open>BPF_HISTOGRAM\<close> a counter for every
  slot, \<open>BPF_STACK_TRACE\<close> a map from stack ids to frame addresses.
\<close>

record bpf_tables =
  init_stacks :: "u64 \<rightharpoonup> c_int"
  locks :: "thread_mutex_key_t \<rightharpoonup> thread_mutex_val_t"
  lock_start :: "u32 \<rightharpoonup> mutex_timestamp_t"
  lock_end :: "mutex_lock_time_key_t \<rightharpoonup> mutex_lock_time_val_t"
  mutex_wait_hist :: "u64 \<Rightarrow> u64"
  mutex_lock_hist :: "u64 \<Rightarrow> u64"
  stacks :: "c_int \<rightharpoonup> u64 list"

definition empty_tables :: bpf_tables where
  "empty_tables =
     \<lparr>init_stacks = Map.empty, locks = Map.empty, lock_start = Map.empty,
      lock_end = Map.empty, mutex_wait_hist = (\<lambda>_. 0), mutex_lock_hist = (\<lambda>_. 0),
      stacks = Map.empty\<rparr>"

text \<open>
  What a handler reads from its surroundings when a probe fires: the clock
  (\<open>bpf_ktime_get_ns\<close>), the thread (\<open>bpf_get_current_pid_tgid\<close>), the first argument
  and the return value of the probed function (\<open>PT_REGS_PARM1\<close>, \<open>PT_REGS_RC\<close>), and the
  user stack that \<open>get_stackid\<close> captures, with the id it gets.
\<close>

record probe_ctx =
  ktime_ns :: u64
  pid_tgid :: u64
  PARM1 :: u64
  RC :: u64
  stackid :: c_int
  frames :: "u64 list"

subsection \<open>Facilities of the instrumentation runtime\<close>

text \<open>
  Modelled from the spec: \<open>stacks.get_stackid\<close> belongs to the BPF runtime and is not in
  the source. The spec's stack registry stores the frames of an id if the id has none yet,
  and the handler goes on with the id.
\<close>

definition get_stackid :: "probe_ctx \<Rightarrow> bpf_tables \<Rightarrow> c_int \<times> bpf_tables" where
  "get_stackid ctx s =
     (stackid ctx,
      (case stacks s (stackid ctx) of
         None \<Rightarrow> s\<lparr>stacks := (stacks s)(stackid ctx \<mapsto> frames ctx)\<rparr>
       | Some _ \<Rightarrow> s))"

text \<open>The floor of the binary logarithm, 0 for arguments below 2.\<close>

fun log2_floor :: "nat \<Rightarrow> nat" where
  "log2_floor n = (if n < 2 then 0 else Suc (log2_floor (n div 2)))"

declare log2_floor.simps [simp del]

text \<open>
  Modelled from the spec: \<open>bpf_log2l\<close> is a helper of the BPF runtime and is not in the
  source. The spec gives the bucket of a value as the floor of its binary logarithm, a
  non-negative index, with the values below 1 clamped to the lowest bucket.
\<close>

definition bpf_log2l :: "u64 \<Rightarrow> u64" where
  "bpf_log2l v = of_nat (log2_floor (unat v))"

text \<open>\<open>hist.increment(slot)\<close>: one more in the slot.\<close>

definition increment :: "(u64 \<Rightarrow> u64) \<Rightarrow> u64 \<Rightarrow> (u64 \<Rightarrow> u64)" where
  "increment hist slot = hist(slot := hist slot + 1)"

text \<open>
  \<open>locks.lookup_or_init(&key, &zero)\<close>: the row of the key, created from the given value
  when the key has none. The result is the row and the table that holds it.
\<close>

definition lookup_or_init ::
  "('k \<rightharpoonup> 'v) \<Rightarrow> 'k \<Rightarrow> 'v \<Rightarrow> 'v \<times> ('k \<rightharpoonup> 'v)" where
  "lookup_or_init m k init =
     (case m k of None \<Rightarrow> (init, m(k \<mapsto> init)) | Some v \<Rightarrow> (v, m))"

text \<open>\<open>struct thread_mutex_val_t new_tm_val = {}\<close>: all fields zero.\<close>

definition new_tm_val :: thread_mutex_val_t where
  "new_tm_val = \<lparr>wait_time_ns = 0, lock_time_ns = 0, enter_count = 0\<rparr>"

subsection \<open>The probe handlers\<close>

text \<open>\<open>u32 pid = bpf_get_current_pid_tgid()\<close>: the low 32 bits, the thread id.\<close>

definition current_pid :: "probe_ctx \<Rightarrow> u32" where
  "current_pid ctx = ucast (pid_tgid ctx)"

definition probe_mutex_lock :: "probe_ctx \<Rightarrow> bpf_tables \<Rightarrow> int \<times> bpf_tables" where
  "probe_mutex_lock ctx s =
     (let now = ktime_ns ctx;
          pid = current_pid ctx;
          val = \<lparr>mts_mtx = PARM1 ctx, mts_timestamp = now\<rparr>
      in (0, s\<lparr>lock_start := (lock_start s)(pid \<mapsto> val)\<rparr>))"

definition probe_mutex_lock_return :: "probe_ctx \<Rightarrow> bpf_tables \<Rightarrow> int \<times> bpf_tables" where
  "probe_mutex_lock_return ctx s =
     (let now = ktime_ns ctx;
          pid = current_pid ctx
      in case lock_start s pid of
           None \<Rightarrow> (0, s)
         | Some entry \<Rightarrow>
            (let wait_time = now - mts_timestamp entry;
                 (stack_id, s1) = get_stackid ctx s;
                 s2 = (if RC ctx = 0
                       then s1\<lparr>lock_end := (lock_end s1)
                              (\<lparr>ltk_tid = pid, ltk_mtx = mts_mtx entry\<rparr> \<mapsto>
                               \<lparr>ltv_timestamp = now, ltv_stack_id = stack_id\<rparr>)\<rparr>
                       else s1);
                 tm_key = \<lparr>tmk_tid = pid, tmk_mtx = mts_mtx entry,
                           tmk_lock_stack_id = stack_id\<rparr>;
                 (existing_tm_val, locks1) = lookup_or_init (locks s2) tm_key new_tm_val;
                 v1 = existing_tm_val\<lparr>wait_time_ns := wait_time_ns existing_tm_val + wait_time\<rparr>;
                 v2 = (if RC ctx = 0 then v1\<lparr>enter_count := enter_count v1 + 1\<rparr> else v1);
                 s3 = s2\<lparr>locks := locks1(tm_key \<mapsto> v2)\<rparr>;
                 mtx_slot = bpf_log2l (wait_time div 1000);
                 s4 = s3\<lparr>mutex_wait_hist := increment (mutex_wait_hist s3) mtx_slot\<rparr>;
                 s5 = s4\<lparr>lock_start := (lock_start s4)(pid := None)\<rparr>
             in (0, s5)))"

definition probe_mutex_unlock :: "probe_ctx \<Rightarrow> bpf_tables \<Rightarrow> int \<times> bpf_tables" where
  "probe_mutex_unlock ctx s =
     (let now = ktime_ns ctx;
          mtx = PARM1 ctx;
          pid = current_pid ctx;
          lock_key = \<lparr>ltk_tid = pid, ltk_mtx = mtx\<rparr>
      in case lock_end s lock_key of
           None \<Rightarrow> (0, s)
         | Some lock_val \<Rightarrow>
            (let hold_time = now - ltv_timestamp lock_val;
                 tm_key = \<lparr>tmk_tid = pid, tmk_mtx = mtx,
                           tmk_lock_stack_id = ltv_stack_id lock_val\<rparr>
             in case locks s tm_key of
                  None \<Rightarrow> (0, s)
                | Some existing_tm_val \<Rightarrow>
                   (let s1 = s\<lparr>locks := (locks s)(tm_key \<mapsto>
                                existing_tm_val\<lparr>lock_time_ns :=
                                  lock_time_ns existing_tm_val + hold_time\<rparr>)\<rparr>;
                        slot = bpf_log2l (hold_time div 1000);
                        s2 = s1\<lparr>mutex_lock_hist := increment (mutex_lock_hist s1) slot\<rparr>;
                        s3 = s2\<lparr>lock_end := (lock_end s2)(lock_key := None)\<rparr>
                    in (0, s3))))"

definition probe_mutex_init :: "probe_ctx \<Rightarrow> bpf_tables \<Rightarrow> int \<times> bpf_tables" where
  "probe_mutex_init ctx s =
     (let (stack_id, s1) = get_stackid ctx s;
          mutex_addr = PARM1 ctx
      in (0, s1\<lparr>init_stacks := (init_stacks s1)(mutex_addr \<mapsto> stack_id)\<rparr>))"

subsection \<open>Attached probes and runs\<close>

text \<open>
  \<open>attach\<close> binds the four handlers to the entry of \<open>pthread_mutex_init\<close>, the entry and
  the return of \<open>pthread_mutex_lock\<close>, and the entry of \<open>pthread_mutex_unlock\<close>. A probe
  that fires is one of four events; a run of the target process is a list of them, handled
  one after the other.
\<close>

datatype event =
    MutexInit probe_ctx
  | MutexLock probe_ctx
  | MutexLockReturn probe_ctx
  | MutexUnlock probe_ctx

fun fire :: "event \<Rightarrow> bpf_tables \<Rightarrow> bpf_tables" where
  "fire (MutexInit ctx) s = snd (probe_mutex_init ctx s)"
| "fire (MutexLock ctx) s = snd (probe_mutex_lock ctx s)"
| "fire (MutexLockReturn ctx) s = snd (probe_mutex_lock_return ctx s)"
| "fire (MutexUnlock ctx) s = snd (probe_mutex_unlock ctx s)"

fun fire_all :: "event list \<Rightarrow> bpf_tables \<Rightarrow> bpf_tables" where
  "fire_all [] s = s"
| "fire_all (e # es) s = fire_all es (fire e s)"

text \<open>The readings of a row that has not been created yet are those of the zero row.\<close>

definition row :: "bpf_tables \<Rightarrow> thread_mutex_key_t \<Rightarrow> thread_mutex_val_t" where
  "row s k = (case locks s k of None \<Rightarrow> new_tm_val | Some v \<Rightarrow> v)"

text \<open>
  Which events of a run belong to a thread's attempt to lock (the entry and the return of
  \<open>pthread_mutex_lock\<close> in that thread), and which to a thread's use of one mutex (its
  calls of \<open>pthread_mutex_lock\<close> and \<open>pthread_mutex_unlock\<close> on that address).
\<close>

fun attempt_of :: "u32 \<Rightarrow> event \<Rightarrow> bool" where
  "attempt_of t (MutexLock ctx) = (current_pid ctx = t)"
| "attempt_of t (MutexLockReturn ctx) = (current_pid ctx = t)"
| "attempt_of t (MutexInit ctx) = False"
| "attempt_of t (MutexUnlock ctx) = False"

fun call_on :: "u32 \<Rightarrow> u64 \<Rightarrow> event \<Rightarrow> bool" where
  "call_on t l (MutexLock ctx) = (current_pid ctx = t \<and> PARM1 ctx = l)"
| "call_on t l (MutexUnlock ctx) = (current_pid ctx = t \<and> PARM1 ctx = l)"
| "call_on t l (MutexInit ctx) = False"
| "call_on t l (MutexLockReturn ctx) = False"

text \<open>
  Whether a thread is between the entry and the return of \<open>pthread_mutex_lock\<close> on a
  mutex, as \<open>lock_start\<close> has it.
\<close>

definition waits_on :: "bpf_tables \<Rightarrow> u32 \<Rightarrow> u64 \<Rightarrow> bool" where
  "waits_on s t l = (case lock_start s t of None \<Rightarrow> False | Some entry \<Rightarrow> mts_mtx entry = l)"

text \<open>Every entry of \<open>lock_end\<close> has its row in \<open>locks\<close>, under the stack id it stores.\<close>

definition rows_cover :: "bpf_tables \<Rightarrow> bool" where
  "rows_cover s =
     (\<forall>key lv. lock_end s key = Some lv \<longrightarrow>
        locks s \<lparr>tmk_tid = ltk_tid key, tmk_mtx = ltk_mtx key,
                 tmk_lock_stack_id = ltv_stack_id lv\<rparr> \<noteq> None)"

subsection \<open>The report of \<open>run\<close>: the rows of \<open>locks\<close> by thread\<close>

text \<open>
  \<open>locks.items()\<close> is a list of key and value pairs, in the order of the table's
  iteration. Python reads the fields as unbounded integers.
\<close>

type_synonym lock_item = "thread_mutex_key_t \<times> thread_mutex_val_t"

definition grouper :: "lock_item \<Rightarrow> int" where
  "grouper = (\<lambda>(k, v). uint (tmk_tid k))"

text \<open>\<open>lambda (k, v): -v.wait_time_ns\<close>, the key of the sort within a thread.\<close>

definition neg_wait :: "lock_item \<Rightarrow> int" where
  "neg_wait = (\<lambda>(k, v). - uint (wait_time_ns v))"

text \<open>
  \<open>itertools.groupby\<close>: the maximal runs of neighbours with the same key, each with its
  key, in the order of the list.
\<close>

function groupby :: "('a \<Rightarrow> 'k) \<Rightarrow> 'a list \<Rightarrow> ('k \<times> 'a list) list" where
  "groupby key [] = []"
| "groupby key (x # xs) =
     (key x, x # takeWhile (\<lambda>y. key y = key x) xs)
       # groupby key (dropWhile (\<lambda>y. key y = key x) xs)"
  by pat_completeness auto
termination
  by (relation "measure (\<lambda>(key, xs). length xs)")
     (auto simp: length_dropWhile_le less_Suc_eq_le)

text \<open>
  Lines 187 to 192 of \<open>run\<close>: the threads in the order in which their sections are
  printed, each with its rows in the order in which they are printed. Python's \<open>sorted\<close>
  is stable, as \<open>sort_key\<close> is.
\<close>

definition thread_sections :: "lock_item list \<Rightarrow> (int \<times> lock_item list) list" where
  "thread_sections items =
     (let sorted_by_thread = sort_key grouper items;
          locks_by_thread = groupby grouper sorted_by_thread
      in map (\<lambda>(tid, items). (tid, sort_key neg_wait items)) locks_by_thread)"

subsection \<open>The entry point\<close>

text \<open>
  The exceptions that can reach the top level: the two of the \<open>__main__\<close> block itself,
  the interrupt of a terminated process, and whatever a call into the BPF library or the
  symbol resolver raises.
\<close>

datatype py_exception = IndexError | ValueError | KeyboardInterrupt | LibraryError string

text \<open>
  How the script ends, when it ends: it falls off its last line, or an exception reaches
  the top level. Both with the lines printed so far.
\<close>

datatype outcome = Finished "string list" | Uncaught "string list" py_exception

text \<open>The exit status of the interpreter: 0 after the last line, 1 after a traceback.\<close>

fun exit_status :: "outcome \<Rightarrow> int" where
  "exit_status (Finished out) = 0"
| "exit_status (Uncaught out e) = 1"

text \<open>
  What the script calls and does not define, as the surroundings of one invocation give
  it: Python's \<open>int\<close> on a string (\<open>None\<close> where it raises \<open>ValueError\<close>); the three set-up
  calls of \<open>run\<close>, \<open>BPF(text=text)\<close>, \<open>attach(bpf, pid)\<close> and \<open>ProcessSymbols(pid=pid)\<close>,
  each with the exception it raises, if any; and the passes of the loop for a process, the
  n-th with the lines it prints (they depend on the tables at that moment, the symbol
  resolver and the formatting of floats) and the exception that ends it, if any: an
  interrupt during \<open>sleep(5)\<close>, or an error of a library call.
\<close>

record world =
  py_int :: "string \<Rightarrow> int option"
  bpf_load :: "py_exception option"
  bpf_attach :: "int \<Rightarrow> py_exception option"
  process_symbols :: "int \<Rightarrow> py_exception option"
  report_pass :: "int \<Rightarrow> nat \<Rightarrow> string list \<times> py_exception option"

text \<open>
  The \<open>while True\<close> loop of \<open>run\<close> has no \<open>break\<close> and no \<open>return\<close>: it goes from one
  pass to the next, and ends only with the exception of a pass. The value of a loop that
  does not return is \<open>None\<close>.
\<close>

partial_function (option) report_loop ::
  "(nat \<Rightarrow> string list \<times> py_exception option) \<Rightarrow> nat \<Rightarrow> string list \<Rightarrow> outcome option" where
  "report_loop pass n out =
     (case pass n of
        (lines, Some e) \<Rightarrow> Some (Uncaught (out @ lines) e)
      | (lines, None) \<Rightarrow> report_loop pass (Suc n) (out @ lines))"

text \<open>\<open>run(pid)\<close>: load the BPF text, attach it, open the symbols, then loop.\<close>

definition run :: "world \<Rightarrow> int \<Rightarrow> outcome option" where
  "run w pid =
     (case bpf_load w of
        Some e \<Rightarrow> Some (Uncaught [] e)
      | None \<Rightarrow>
         (case bpf_attach w pid of
            Some e \<Rightarrow> Some (Uncaught [] e)
          | None \<Rightarrow>
             (case process_symbols w pid of
                Some e \<Rightarrow> Some (Uncaught [] e)
              | None \<Rightarrow> report_loop (report_pass w pid) 0 [])))"

text \<open>The \<open>__main__\<close> block, on \<open>sys.argv\<close>.\<close>

definition main :: "world \<Rightarrow> string list \<Rightarrow> outcome option" where
  "main w argv =
     (if length argv < 2
      then (case argv of
              [] \<Rightarrow> Some (Uncaught [] IndexError)
            | prog # _ \<Rightarrow> Some (Finished [''USAGE: '' @ prog @ '' pid'']))
      else (case py_int w (argv ! 1) of
              None \<Rightarrow> Some (Uncaught [] ValueError)
            | Some pid \<Rightarrow> run w pid))"

text \<open>The lines printed by the passes from the n-th up to and including the m-th.\<close>

definition printed :: "(nat \<Rightarrow> string list \<times> py_exception option) \<Rightarrow> nat \<Rightarrow> nat \<Rightarrow> string list" where
  "printed pass n m = concat (map (\<lambda>i. fst (pass i)) [n..<Suc m])"

text \<open>
  Sample surroundings. \<open>int\<close> accepts the strings of decimal digits, as far as the samples
  go; process 1234 exists and the set-up succeeds for it; for any other process the attach
  fails. In \<open>calm\<close> no pass ever raises; in \<open>interrupted\<close> the third pass is interrupted
  during its sleep.
\<close>

definition digits_only :: "string \<Rightarrow> int option" where
  "digits_only s =
     (if s \<noteq> [] \<and> list_all (\<lambda>c. 48 \<le> (of_char c :: nat) \<and> (of_char c :: nat) \<le> 57) s
      then Some (int (foldl (\<lambda>a c. 10 * a + (of_char c - 48)) 0 s))
      else None)"

definition calm :: world where
  "calm = \<lparr>py_int = digits_only, bpf_load = None,
           bpf_attach = (\<lambda>pid. if pid = 1234 then None
                               else Some (LibraryError ''Failed to attach BPF to uprobe'')),
           process_symbols = (\<lambda>pid. None),
           report_pass = (\<lambda>pid n. ([''thread 1''], None))\<rparr>"

definition interrupted :: world where
  "interrupted = calm\<lparr>report_pass :=
     (\<lambda>pid n. if n = 2 then ([], Some KeyboardInterrupt) else ([''thread 1''], None))\<rparr>"

subsection \<open>A scenario\<close>

text \<open>
  Thread 1 calls \<open>pthread_mutex_lock\<close> on the mutex at 0x100 at time 0, the call returns
  at time 50000 from the call site with stack id 2, and the thread unlocks the mutex at
  time 150000. In the failing variant the call returns 16 (\<open>EBUSY\<close>).
\<close>

definition at_lock :: probe_ctx where
  "at_lock = \<lparr>ktime_ns = 0, pid_tgid = 1, PARM1 = 0x100, RC = 0, stackid = 2, frames = []\<rparr>"

definition at_lock_return :: probe_ctx where
  "at_lock_return =
     \<lparr>ktime_ns = 50000, pid_tgid = 1, PARM1 = 0, RC = 0, stackid = 2, frames = []\<rparr>"

definition at_lock_failed :: probe_ctx where
  "at_lock_failed =
     \<lparr>ktime_ns = 50000, pid_tgid = 1, PARM1 = 0, RC = 16, stackid = 2, frames = []\<rparr>"

definition at_unlock :: probe_ctx where
  "at_unlock =
     \<lparr>ktime_ns = 150000, pid_tgid = 1, PARM1 = 0x100, RC = 0, stackid = 3, frames = []\<rparr>"

text \<open>A variant in which the call returns after half a microsecond, at time 500.\<close>

definition at_lock_return_500 :: probe_ctx where
  "at_lock_return_500 =
     \<lparr>ktime_ns = 500, pid_tgid = 1, PARM1 = 0, RC = 0, stackid = 2, frames = []\<rparr>"

text \<open>Another thread, 2, locks and unlocks another mutex in between.\<close>

definition other_lock :: probe_ctx where
  "other_lock =
     \<lparr>ktime_ns = 10000, pid_tgid = 2, PARM1 = 0x200, RC = 0, stackid = 4, frames = []\<rparr>"

definition other_lock_return :: probe_ctx where
  "other_lock_return =
     \<lparr>ktime_ns = 20000, pid_tgid = 2, PARM1 = 0, RC = 0, stackid = 4, frames = []\<rparr>"

definition other_unlock :: probe_ctx where
  "other_unlock =
     \<lparr>ktime_ns = 30000, pid_tgid = 2, PARM1 = 0x200, RC = 0, stackid = 5, frames = []\<rparr>"

text \<open>A variant in which the clock reads 50000 at the entry as well.\<close>

definition at_lock_late :: probe_ctx where
  "at_lock_late =
     \<lparr>ktime_ns = 50000, pid_tgid = 1, PARM1 = 0x100, RC = 0, stackid = 2, frames = []\<rparr>"

text \<open>
  A snapshot of \<open>locks\<close>: three rows of thread 5 with the wait times 300, 100 and 200,
  and between them a row of thread 3.
\<close>

definition row_300 :: lock_item where
  "row_300 = (\<lparr>tmk_tid = 5, tmk_mtx = 0x100, tmk_lock_stack_id = 1\<rparr>,
              \<lparr>wait_time_ns = 300, lock_time_ns = 10, enter_count = 1\<rparr>)"

definition row_100 :: lock_item where
  "row_100 = (\<lparr>tmk_tid = 5, tmk_mtx = 0x200, tmk_lock_stack_id = 1\<rparr>,
              \<lparr>wait_time_ns = 100, lock_time_ns = 20, enter_count = 2\<rparr>)"

definition row_200 :: lock_item where
  "row_200 = (\<lparr>tmk_tid = 5, tmk_mtx = 0x300, tmk_lock_stack_id = 1\<rparr>,
              \<lparr>wait_time_ns = 200, lock_time_ns = 30, enter_count = 3\<rparr>)"

definition row_other :: lock_item where
  "row_other = (\<lparr>tmk_tid = 3, tmk_mtx = 0x100, tmk_lock_stack_id = 7\<rparr>,
                \<lparr>wait_time_ns = 7, lock_time_ns = 0, enter_count = 0\<rparr>)"

definition snapshot :: "lock_item list" where
  "snapshot = [row_300, row_other, row_100, row_200]"

definition meanwhile :: "event list" where
  "meanwhile = [MutexLock other_lock, MutexLockReturn other_lock_return, MutexUnlock other_unlock]"

definition key_1_100_2 :: thread_mutex_key_t where
  "key_1_100_2 = \<lparr>tmk_tid = 1, tmk_mtx = 0x100, tmk_lock_stack_id = 2\<rparr>"

section \<open>What each handler does to each table\<close>

text \<open>
  The two handlers with early returns, on the path where every lookup succeeds: the tables
  afterwards, written out field by field.
\<close>

lemma lock_return_hit:
  assumes "lock_start s (current_pid ctx) = Some entry"
  shows "probe_mutex_lock_return ctx s =
    (0, s\<lparr>stacks := (case stacks s (stackid ctx) of None \<Rightarrow> (stacks s)(stackid ctx \<mapsto> frames ctx) | Some _ \<Rightarrow> stacks s),
          lock_end := (if RC ctx = 0 then (lock_end s)(\<lparr>ltk_tid = current_pid ctx, ltk_mtx = mts_mtx entry\<rparr> \<mapsto>
                               \<lparr>ltv_timestamp = ktime_ns ctx, ltv_stack_id = stackid ctx\<rparr>) else lock_end s),
          locks := (locks s)(\<lparr>tmk_tid = current_pid ctx, tmk_mtx = mts_mtx entry, tmk_lock_stack_id = stackid ctx\<rparr> \<mapsto>
              (row s \<lparr>tmk_tid = current_pid ctx, tmk_mtx = mts_mtx entry, tmk_lock_stack_id = stackid ctx\<rparr>)
               \<lparr>wait_time_ns := wait_time_ns (row s \<lparr>tmk_tid = current_pid ctx, tmk_mtx = mts_mtx entry, tmk_lock_stack_id = stackid ctx\<rparr>) + (ktime_ns ctx - mts_timestamp entry),
                enter_count := (if RC ctx = 0 then enter_count (row s \<lparr>tmk_tid = current_pid ctx, tmk_mtx = mts_mtx entry, tmk_lock_stack_id = stackid ctx\<rparr>) + 1 else enter_count (row s \<lparr>tmk_tid = current_pid ctx, tmk_mtx = mts_mtx entry, tmk_lock_stack_id = stackid ctx\<rparr>))\<rparr>),
          mutex_wait_hist := increment (mutex_wait_hist s) (bpf_log2l ((ktime_ns ctx - mts_timestamp entry) div 1000)),
          lock_start := (lock_start s)(current_pid ctx := None)\<rparr>)"
  using assms
  by (auto simp add: probe_mutex_lock_return_def Let_def get_stackid_def lookup_or_init_def row_def split: option.splits prod.splits)

lemma lock_return_miss:
  "lock_start s (current_pid ctx) = None \<Longrightarrow> probe_mutex_lock_return ctx s = (0, s)"
  by (simp add: probe_mutex_lock_return_def)

lemma unlock_hit:
  assumes "lock_end s \<lparr>ltk_tid = current_pid ctx, ltk_mtx = PARM1 ctx\<rparr> = Some lv"
    and "locks s \<lparr>tmk_tid = current_pid ctx, tmk_mtx = PARM1 ctx, tmk_lock_stack_id = ltv_stack_id lv\<rparr> = Some v"
  shows "probe_mutex_unlock ctx s =
    (0, s\<lparr>locks := (locks s)(\<lparr>tmk_tid = current_pid ctx, tmk_mtx = PARM1 ctx, tmk_lock_stack_id = ltv_stack_id lv\<rparr> \<mapsto>
              v\<lparr>lock_time_ns := lock_time_ns v + (ktime_ns ctx - ltv_timestamp lv)\<rparr>),
          mutex_lock_hist := increment (mutex_lock_hist s) (bpf_log2l ((ktime_ns ctx - ltv_timestamp lv) div 1000)),
          lock_end := (lock_end s)(\<lparr>ltk_tid = current_pid ctx, ltk_mtx = PARM1 ctx\<rparr> := None)\<rparr>)"
  using assms
  by (simp add: probe_mutex_unlock_def Let_def)

lemma init_fields:
  "lock_start (snd (probe_mutex_init c s)) = lock_start s"
  "lock_end (snd (probe_mutex_init c s)) = lock_end s"
  "locks (snd (probe_mutex_init c s)) = locks s"
  by (simp_all add: probe_mutex_init_def get_stackid_def Let_def split: option.splits)

lemma lock_fields:
  "lock_start (snd (probe_mutex_lock c s)) =
     (lock_start s)(current_pid c \<mapsto> \<lparr>mts_mtx = PARM1 c, mts_timestamp = ktime_ns c\<rparr>)"
  "lock_end (snd (probe_mutex_lock c s)) = lock_end s"
  "locks (snd (probe_mutex_lock c s)) = locks s"
  by (simp_all add: probe_mutex_lock_def Let_def)

lemma unlock_lock_start: "lock_start (snd (probe_mutex_unlock c s)) = lock_start s"
  by (simp add: probe_mutex_unlock_def Let_def split: option.splits)

lemma lock_return_lock_start:
  "lock_start (snd (probe_mutex_lock_return c s)) = (lock_start s)(current_pid c := None)"
proof (cases "lock_start s (current_pid c)")
  case None
  then show ?thesis by (auto simp: probe_mutex_lock_return_def)
next
  case (Some entry)
  then show ?thesis by (simp add: lock_return_hit)
qed

lemma fire_lock_start:
  "\<not> attempt_of t e \<Longrightarrow> lock_start (fire e s) t = lock_start s t"
  by (cases e) (simp_all add: init_fields lock_fields unlock_lock_start lock_return_lock_start)

lemma fire_all_lock_start:
  "\<forall>e\<in>set evs. \<not> attempt_of t e \<Longrightarrow> lock_start (fire_all evs s) t = lock_start s t"
  by (induction evs arbitrary: s) (simp_all add: fire_lock_start)

lemma row_init: "row (snd (probe_mutex_init c s)) k = row s k"
  by (simp add: row_def init_fields)

lemma row_lock: "row (snd (probe_mutex_lock c s)) k = row s k"
  by (simp add: row_def lock_fields)

lemma row_unlock:
  "wait_time_ns (row (snd (probe_mutex_unlock c s)) k) = wait_time_ns (row s k)"
  "enter_count (row (snd (probe_mutex_unlock c s)) k) = enter_count (row s k)"
  by (simp_all add: probe_mutex_unlock_def Let_def row_def split: option.splits)

lemma row_lock_return_other:
  "current_pid c \<noteq> tmk_tid k \<Longrightarrow> row (snd (probe_mutex_lock_return c s)) k = row s k"
proof (cases "lock_start s (current_pid c)")
  case None
  then show ?thesis by (simp add: probe_mutex_lock_return_def)
next
  case (Some entry)
  assume "current_pid c \<noteq> tmk_tid k"
  then have "k \<noteq> \<lparr>tmk_tid = current_pid c, tmk_mtx = mts_mtx entry, tmk_lock_stack_id = stackid c\<rparr>"
    by auto
  with Some show ?thesis by (simp add: lock_return_hit row_def)
qed

lemma fire_wait_enter:
  "\<not> attempt_of (tmk_tid k) e \<Longrightarrow>
     wait_time_ns (row (fire e s) k) = wait_time_ns (row s k) \<and>
     enter_count (row (fire e s) k) = enter_count (row s k)"
  by (cases e) (simp_all add: row_init row_lock row_unlock row_lock_return_other)

lemma fire_all_wait_enter:
  "\<forall>e\<in>set evs. \<not> attempt_of (tmk_tid k) e \<Longrightarrow>
     wait_time_ns (row (fire_all evs s) k) = wait_time_ns (row s k) \<and>
     enter_count (row (fire_all evs s) k) = enter_count (row s k)"
  by (induction evs arbitrary: s) (simp_all add: fire_wait_enter)

lemma locks_stay: "locks s k \<noteq> None \<Longrightarrow> locks (fire e s) k \<noteq> None"
proof (cases e)
  case (MutexLockReturn c)
  then show "locks s k \<noteq> None \<Longrightarrow> ?thesis"
    by (cases "lock_start s (current_pid c)") (auto simp: lock_return_miss lock_return_hit)
next
  case (MutexUnlock c)
  then show "locks s k \<noteq> None \<Longrightarrow> ?thesis"
    by (auto simp: probe_mutex_unlock_def Let_def split: option.splits)
qed (simp_all add: init_fields lock_fields)

lemma fire_all_locks_stay: "locks s k \<noteq> None \<Longrightarrow> locks (fire_all evs s) k \<noteq> None"
proof (induction evs arbitrary: s)
  case Nil
  then show ?case by simp
next
  case (Cons e evs)
  from Cons.IH [OF locks_stay [OF Cons.prems]] show ?case by simp
qed

lemma rows_cover_fire: "rows_cover s \<Longrightarrow> rows_cover (fire e s)"
proof (cases e)
  case (MutexInit c)
  then show "rows_cover s \<Longrightarrow> ?thesis" by (simp add: rows_cover_def init_fields)
next
  case (MutexLock c)
  then show "rows_cover s \<Longrightarrow> ?thesis" by (simp add: rows_cover_def lock_fields)
next
  case (MutexLockReturn c)
  then show "rows_cover s \<Longrightarrow> ?thesis"
    by (cases "lock_start s (current_pid c)") (auto simp: lock_return_miss rows_cover_def lock_return_hit)
next
  case (MutexUnlock c)
  then show "rows_cover s \<Longrightarrow> ?thesis"
    by (auto simp: rows_cover_def probe_mutex_unlock_def Let_def split: option.splits)
qed

lemma rows_cover_fire_all: "rows_cover s \<Longrightarrow> rows_cover (fire_all evs s)"
  by (induction evs arbitrary: s) (simp_all add: rows_cover_fire)

lemma rows_cover_empty: "rows_cover empty_tables"
  by (simp add: rows_cover_def empty_tables_def)

lemma unlock_consumes:
  assumes "rows_cover s" and "lock_end s \<lparr>ltk_tid = current_pid c, ltk_mtx = PARM1 c\<rparr> \<noteq> None"
  shows "lock_end (snd (probe_mutex_unlock c s)) \<lparr>ltk_tid = current_pid c, ltk_mtx = PARM1 c\<rparr> = None"
proof -
  from assms(2) obtain lv where lv: "lock_end s \<lparr>ltk_tid = current_pid c, ltk_mtx = PARM1 c\<rparr> = Some lv"
    by auto
  with assms(1) obtain v where
    "locks s \<lparr>tmk_tid = current_pid c, tmk_mtx = PARM1 c, tmk_lock_stack_id = ltv_stack_id lv\<rparr> = Some v"
    by (fastforce simp: rows_cover_def)
  with lv show ?thesis by (simp add: unlock_hit)
qed

lemma fire_pair:
  assumes "\<not> call_on t l e" and "\<not> waits_on s t l"
  shows "lock_end (fire e s) \<lparr>ltk_tid = t, ltk_mtx = l\<rparr> = lock_end s \<lparr>ltk_tid = t, ltk_mtx = l\<rparr> \<and>
         \<not> waits_on (fire e s) t l"
proof (cases e)
  case (MutexInit c)
  with assms show ?thesis by (simp add: init_fields waits_on_def)
next
  case (MutexLock c)
  with assms show ?thesis by (auto simp: lock_fields waits_on_def)
next
  case (MutexLockReturn c)
  with assms show ?thesis
    by (cases "lock_start s (current_pid c)") (auto simp: lock_return_miss lock_return_hit waits_on_def)
next
  case (MutexUnlock c)
  with assms show ?thesis
    by (auto simp: probe_mutex_unlock_def Let_def waits_on_def split: option.splits)
qed

lemma fire_all_pair:
  assumes "\<forall>e\<in>set evs. \<not> call_on t l e" and "\<not> waits_on s t l"
  shows "lock_end (fire_all evs s) \<lparr>ltk_tid = t, ltk_mtx = l\<rparr> = lock_end s \<lparr>ltk_tid = t, ltk_mtx = l\<rparr>"
  using assms
proof (induction evs arbitrary: s)
  case Nil
  then show ?case by simp
next
  case (Cons e evs)
  from Cons.prems have "\<not> call_on t l e" by simp
  from fire_pair [OF this Cons.prems(2)] Cons.IH [of "fire e s"] Cons.prems(1)
  show ?case by simp
qed

lemma fire_lock_time:
  assumes "\<not> call_on (tmk_tid k) (tmk_mtx k) e"
  shows "lock_time_ns (row (fire e s) k) = lock_time_ns (row s k)"
proof (cases e)
  case (MutexInit c)
  then show ?thesis by (simp add: row_init)
next
  case (MutexLock c)
  then show ?thesis by (simp add: row_lock)
next
  case (MutexLockReturn c)
  then show ?thesis
    by (cases "lock_start s (current_pid c)") (auto simp: lock_return_miss lock_return_hit row_def)
next
  case (MutexUnlock c)
  with assms have "k \<noteq> \<lparr>tmk_tid = current_pid c, tmk_mtx = PARM1 c, tmk_lock_stack_id = x\<rparr>" for x
    by auto
  with MutexUnlock show ?thesis
    by (auto simp: probe_mutex_unlock_def Let_def row_def split: option.splits)
qed

lemma fire_all_lock_time:
  "\<forall>e\<in>set evs. \<not> call_on (tmk_tid k) (tmk_mtx k) e \<Longrightarrow>
   lock_time_ns (row (fire_all evs s) k) = lock_time_ns (row s k)"
  by (induction evs arbitrary: s) (simp_all add: fire_lock_time)

section \<open>The slot of a duration\<close>

lemma log2_floor_bounds: "0 < n \<Longrightarrow> 2 ^ log2_floor n \<le> n \<and> n < 2 ^ Suc (log2_floor n)"
proof (induction n rule: log2_floor.induct)
  case (1 n)
  show ?case
  proof (cases "n < 2")
    case True
    with 1 show ?thesis by (simp add: log2_floor.simps)
  next
    case False
    then have "0 < n div 2" by simp
    with 1 False have "2 ^ log2_floor (n div 2) \<le> n div 2 \<and> n div 2 < 2 ^ Suc (log2_floor (n div 2))" by simp
    with False show ?thesis by (subst (1 2) log2_floor.simps) auto
  qed
qed

lemma log2_floor_unique:
  assumes "2 ^ b \<le> n" and "n < 2 ^ Suc b"
  shows "log2_floor n = b"
proof -
  from assms(1) have pos: "0 < n" by (metis less_le_trans zero_less_numeral zero_less_power)
  note L = log2_floor_bounds [OF pos]
  have "\<not> log2_floor n < b"
  proof
    assume "log2_floor n < b"
    then have "(2::nat) ^ Suc (log2_floor n) \<le> 2 ^ b" by (intro power_increasing) simp_all
    with L assms(1) show False by linarith
  qed
  moreover have "\<not> b < log2_floor n"
  proof
    assume "b < log2_floor n"
    then have "(2::nat) ^ Suc b \<le> 2 ^ log2_floor n" by (intro power_increasing) simp_all
    with L assms(2) show False by linarith
  qed
  ultimately show ?thesis by simp
qed

lemma log2_floor_less: "n < 2 ^ m \<Longrightarrow> 0 < m \<Longrightarrow> log2_floor n < m"
proof (cases "n = 0")
  case True
  assume "0 < m"
  with True show ?thesis by (simp add: log2_floor.simps)
next
  case False
  assume "n < 2 ^ m"
  moreover from False have "2 ^ log2_floor n \<le> n" using log2_floor_bounds [of n] by simp
  ultimately have "(2::nat) ^ log2_floor n < 2 ^ m" by linarith
  then show ?thesis by (simp only: power_strict_increasing_iff one_less_numeral_iff semiring_norm)
qed

lemma unat_bpf_log2l: "unat (bpf_log2l v) = log2_floor (unat v)"
proof -
  have "unat v < 2 ^ 64" using unsigned_less [of v] by simp
  then have "log2_floor (unat v) < 64" by (rule log2_floor_less) simp
  then have "log2_floor (unat v) mod 2 ^ 64 = log2_floor (unat v)" by simp
  then show ?thesis by (simp add: bpf_log2l_def unat_of_nat)
qed

lemma bpf_log2l_slot:
  fixes d b :: u64
  assumes "1000 \<le> unat d"
  shows "bpf_log2l (d div 1000) = b \<longleftrightarrow>
         1000 * 2 ^ unat b \<le> unat d \<and> unat d < 1000 * 2 ^ (unat b + 1)"
proof -
  have n: "unat (d div 1000) = unat d div 1000" by (simp add: unat_div)
  from assms have pos: "0 < unat d div 1000" by (simp add: div_greater_zero_iff)
  have lo: "2 ^ k \<le> unat d div 1000 \<longleftrightarrow> 1000 * 2 ^ k \<le> unat d" for k
    by (simp add: less_eq_div_iff_mult_less_eq mult.commute)
  have hi: "unat d div 1000 < 2 ^ k \<longleftrightarrow> unat d < 1000 * 2 ^ k" for k
    by (simp add: div_less_iff_less_mult mult.commute)
  show ?thesis
  proof
    assume "bpf_log2l (d div 1000) = b"
    then have "unat b = log2_floor (unat d div 1000)" using unat_bpf_log2l [of "d div 1000"] n by simp
    with log2_floor_bounds [OF pos]
    have "2 ^ unat b \<le> unat d div 1000" and "unat d div 1000 < 2 ^ (unat b + 1)"
      by simp_all
    then show "1000 * 2 ^ unat b \<le> unat d \<and> unat d < 1000 * 2 ^ (unat b + 1)"
      by (simp only: lo hi simp_thms)
  next
    assume "1000 * 2 ^ unat b \<le> unat d \<and> unat d < 1000 * 2 ^ (unat b + 1)"
    then have "2 ^ unat b \<le> unat d div 1000" and "unat d div 1000 < 2 ^ (unat b + 1)"
      by (simp_all only: lo hi)
    then have "2 ^ unat b \<le> unat d div 1000" and "unat d div 1000 < 2 ^ Suc (unat b)"
      by simp_all
    then have "log2_floor (unat d div 1000) = unat b" by (rule log2_floor_unique)
    then have "unat (bpf_log2l (d div 1000)) = unat b" by (simp add: unat_bpf_log2l n)
    then show "bpf_log2l (d div 1000) = b" by (simp add: word_unat_eq_iff)
  qed
qed

lemma bpf_log2l_sub_microsecond:
  fixes d :: u64
  assumes "unat d < 1000"
  shows "bpf_log2l (d div 1000) = 0"
proof -
  have "unat (d div 1000) = 0" using assms by (simp add: unat_div)
  then have "d div 1000 = 0" by (simp add: unat_eq_0)
  then show ?thesis by (simp add: bpf_log2l_def log2_floor.simps)
qed

lemma bpf_log2l_values:
  "bpf_log2l 0 = 0" "bpf_log2l 10 = 3" "bpf_log2l 50 = 5" "bpf_log2l 100 = 6"
  "bpf_log2l 1023 = 9" "bpf_log2l 1024 = 10"
  by (simp_all add: bpf_log2l_def log2_floor.simps)

section \<open>Groups of a sorted list\<close>

lemma above_after_run:
  fixes f :: "'a \<Rightarrow> 'k::linorder"
  assumes "sorted (map f (x # xs))" and "y \<in> set (dropWhile (\<lambda>y. f y = f x) xs)"
  shows "f x < f y"
  using assms
proof (induction xs)
  case Nil
  then show ?case by simp
next
  case (Cons a as)
  show ?case
  proof (cases "f a = f x")
    case True
    with Cons.prems have "sorted (map f (x # as))" and "y \<in> set (dropWhile (\<lambda>y. f y = f x) as)"
      by simp_all
    then show ?thesis by (rule Cons.IH)
  next
    case False
    with Cons.prems have "y \<in> set (a # as)" by simp
    with Cons.prems(1) have "f a \<le> f y" by auto
    moreover from Cons.prems(1) have "f x \<le> f a" by simp
    ultimately show ?thesis using False by simp
  qed
qed

lemma run_is_filter:
  fixes f :: "'a \<Rightarrow> 'k::linorder"
  assumes "sorted (map f (x # xs))"
  shows "takeWhile (\<lambda>y. f y = f x) xs = filter (\<lambda>y. f y = f x) xs"
proof -
  let ?P = "\<lambda>y. f y = f x"
  have "filter ?P xs = filter ?P (takeWhile ?P xs @ dropWhile ?P xs)"
    by (simp only: takeWhile_dropWhile_id)
  also have "\<dots> = filter ?P (takeWhile ?P xs) @ filter ?P (dropWhile ?P xs)"
    by (simp only: filter_append)
  also have "filter ?P (takeWhile ?P xs) = takeWhile ?P xs"
    by (auto simp: filter_id_conv dest: set_takeWhileD)
  also have "filter ?P (dropWhile ?P xs) = []"
    using above_after_run [OF assms] by (fastforce simp: filter_empty_conv)
  finally show ?thesis by simp
qed

lemma groupby_keys: "fst ` set (groupby f xs) = f ` set xs"
proof (induction f xs rule: groupby.induct)
  case (1 key)
  then show ?case by simp
next
  case (2 key x xs)
  have "set xs = set (takeWhile (\<lambda>y. key y = key x) xs) \<union> set (dropWhile (\<lambda>y. key y = key x) xs)"
    by (metis set_append takeWhile_dropWhile_id)
  moreover have "key ` set (takeWhile (\<lambda>y. key y = key x) xs) \<subseteq> {key x}"
    by (auto dest: set_takeWhileD)
  ultimately show ?case using 2 by auto
qed

lemma sorted_after_run:
  fixes f :: "'a \<Rightarrow> 'k::linorder"
  shows "sorted (map f xs) \<Longrightarrow> sorted (map f (dropWhile P xs))"
  by (induction xs) auto

lemma groupby_is_filter:
  fixes f :: "'a \<Rightarrow> 'k::linorder"
  assumes "sorted (map f xs)" and "(k, g) \<in> set (groupby f xs)"
  shows "g = filter (\<lambda>y. f y = k) xs"
  using assms
proof (induction f xs rule: groupby.induct)
  case (1 key)
  then show ?case by simp
next
  case (2 key x xs)
  let ?P = "\<lambda>y. key y = key x"
  from "2.prems"(1) have tail: "sorted (map key (dropWhile ?P xs))"
    by (intro sorted_after_run) simp
  from "2.prems"(2) consider
    (head) "k = key x" "g = x # takeWhile ?P xs"
    | (later) "(k, g) \<in> set (groupby key (dropWhile ?P xs))"
    by auto
  then show ?case
  proof cases
    case head
    with run_is_filter [OF "2.prems"(1)] show ?thesis by simp
  next
    case later
    then have g: "g = filter (\<lambda>y. key y = k) (dropWhile ?P xs)"
      using "2.IH" tail by simp
    from later have "k \<in> key ` set (dropWhile ?P xs)"
      using groupby_keys [of key "dropWhile ?P xs"] by force
    then have above: "key x < k"
      using above_after_run [OF "2.prems"(1)] by auto
    have "filter (\<lambda>y. key y = k) xs =
          filter (\<lambda>y. key y = k) (takeWhile ?P xs @ dropWhile ?P xs)"
      by (simp only: takeWhile_dropWhile_id)
    also have "\<dots> = filter (\<lambda>y. key y = k) (takeWhile ?P xs) @ g"
      by (simp only: filter_append g)
    also have "filter (\<lambda>y. key y = k) (takeWhile ?P xs) = []"
      using above by (auto simp: filter_empty_conv dest: set_takeWhileD)
    finally show ?thesis using above by simp
  qed
qed

lemma groupby_keys_ascend:
  fixes f :: "'a \<Rightarrow> 'k::linorder"
  shows "sorted (map f xs) \<Longrightarrow> sorted_wrt (<) (map fst (groupby f xs))"
proof (induction f xs rule: groupby.induct)
  case (1 key)
  then show ?case by simp
next
  case (2 key x xs)
  let ?P = "\<lambda>y. key y = key x"
  from "2.prems" have tail: "sorted (map key (dropWhile ?P xs))"
    by (intro sorted_after_run) simp
  have "key x < k" if "k \<in> fst ` set (groupby key (dropWhile ?P xs))" for k
    using that above_after_run [OF "2.prems"] by (auto simp: groupby_keys)
  with "2.IH" [OF tail] show ?case by auto
qed

section \<open>Sections of the report\<close>

lemma section_rows:
  assumes "(tid, rows) \<in> set (thread_sections items)"
  shows "rows = sort_key neg_wait (filter (\<lambda>r. grouper r = tid) items)"
proof -
  from assms obtain g where g: "(tid, g) \<in> set (groupby grouper (sort_key grouper items))"
    and rows: "rows = sort_key neg_wait g"
    by (auto simp: thread_sections_def)
  have "g = filter (\<lambda>r. grouper r = tid) (sort_key grouper items)"
    by (rule groupby_is_filter [OF sorted_sort_key g])
  then have "g = filter (\<lambda>r. grouper r = tid) items"
    by (simp only: sort_key_stable)
  with rows show ?thesis by simp
qed

lemma section_tids: "map fst (thread_sections items) = map fst (groupby grouper (sort_key grouper items))"
  by (simp add: thread_sections_def case_prod_unfold comp_def)

lemma section_tids_ascend: "sorted_wrt (<) (map fst (thread_sections items))"
  unfolding section_tids by (rule groupby_keys_ascend [OF sorted_sort_key])

lemma section_tids_set: "fst ` set (thread_sections items) = grouper ` set items"
proof -
  have "fst ` set (thread_sections items) = set (map fst (thread_sections items))" by simp
  also have "\<dots> = fst ` set (groupby grouper (sort_key grouper items))"
    unfolding section_tids by simp
  also have "\<dots> = grouper ` set items" by (simp add: groupby_keys)
  finally show ?thesis .
qed

lemma row_is_rendered:
  assumes "r \<in> set items"
  shows "\<exists>rows. (grouper r, rows) \<in> set (thread_sections items) \<and> r \<in> set rows"
proof -
  from assms have "grouper r \<in> fst ` set (thread_sections items)"
    by (simp add: section_tids_set)
  then obtain rows where in_sec: "(grouper r, rows) \<in> set (thread_sections items)"
    by force
  from section_rows [OF this] assms have "r \<in> set rows" by simp
  with in_sec show ?thesis by blast
qed

lemma neg_wait_le: "neg_wait a \<le> neg_wait b \<longleftrightarrow> wait_time_ns (snd b) \<le> wait_time_ns (snd a)"
  by (simp add: neg_wait_def case_prod_unfold word_le_def)

lemma section_rows_descend:
  assumes "(tid, rows) \<in> set (thread_sections items)"
  shows "sorted_wrt (\<lambda>a b. wait_time_ns (snd b) \<le> wait_time_ns (snd a)) rows"
proof -
  have "sorted (map neg_wait rows)"
    unfolding section_rows [OF assms] by (rule sorted_sort_key)
  then show ?thesis by (simp add: sorted_map neg_wait_le)
qed

lemmas scenario_defs = at_lock_def at_lock_return_def at_lock_failed_def at_unlock_def
  at_lock_return_500_def at_lock_late_def
  other_lock_def other_lock_return_def other_unlock_def meanwhile_def key_1_100_2_def
  current_pid_def

lemmas handler_defs = probe_mutex_init_def probe_mutex_lock_def probe_mutex_lock_return_def
  probe_mutex_unlock_def Let_def get_stackid_def lookup_or_init_def new_tm_val_def increment_def
  row_def empty_tables_def

lemma scenario_lock_end:
  "lock_end (fire_all (MutexLock at_lock # meanwhile @ [MutexLockReturn at_lock_return]) empty_tables)
      \<lparr>ltk_tid = 1, ltk_mtx = 0x100\<rparr> = Some \<lparr>ltv_timestamp = 50000, ltv_stack_id = 2\<rparr>"
  by (simp add: scenario_defs probe_mutex_lock_def probe_mutex_lock_return_def
        probe_mutex_unlock_def Let_def get_stackid_def lookup_or_init_def empty_tables_def
        new_tm_val_def increment_def)

lemmas snapshot_defs = snapshot_def row_300_def row_100_def row_200_def row_other_def

lemma snapshot_sections:
  "thread_sections snapshot = [(3, [row_other]), (5, [row_300, row_200, row_100])]"
  by (simp add: snapshot_defs thread_sections_def grouper_def neg_wait_def)

section \<open>The loop of the report and the entry point\<close>

lemma report_loop_returns:
  assumes "report_loop pass n out = Some y"
  shows "\<exists>m. snd (pass m) \<noteq> None"
proof (rule report_loop.raw_induct [where P = "\<lambda>pass n out y. \<exists>m. snd (pass m) \<noteq> None", OF _ assms])
  fix loop :: "(nat \<Rightarrow> string list \<times> py_exception option) \<Rightarrow> nat \<Rightarrow> string list \<Rightarrow> outcome option"
    and pass n out y
  assume IH: "\<And>pass n out y. loop pass n out = Some y \<Longrightarrow> \<exists>m. snd (pass m) \<noteq> None"
    and body: "(case pass n of
        (lines, Some e) \<Rightarrow> Some (Uncaught (out @ lines) e)
      | (lines, None) \<Rightarrow> loop pass (Suc n) (out @ lines)) = Some y"
  show "\<exists>m. snd (pass m) \<noteq> None"
  proof (cases "snd (pass n)")
    case None
    with body have "loop pass (Suc n) (out @ fst (pass n)) = Some y"
      by (simp split: prod.splits)
    then show ?thesis by (rule IH)
  next
    case (Some e)
    then have "snd (pass n) \<noteq> None" by simp
    then show ?thesis ..
  qed
qed

lemma report_loop_forever:
  "\<forall>m. snd (pass m) = None \<Longrightarrow> report_loop pass n out = None"
  using report_loop_returns [of pass n out] by (cases "report_loop pass n out") auto

lemma report_loop_ends:
  assumes "snd (pass m) = Some e" and "\<forall>i<m. snd (pass i) = None" and "n \<le> m"
  shows "report_loop pass n out = Some (Uncaught (out @ printed pass n m) e)"
  using assms(3)
proof (induction "m - n" arbitrary: n out)
  case 0
  then have "n = m" by simp
  with assms(1) show ?case
    by (subst report_loop.simps) (auto simp: printed_def split: prod.splits)
next
  case (Suc d)
  then have lt: "n < m" and d: "d = m - Suc n" and le: "Suc n \<le> m" by simp_all
  from lt assms(2) have quiet: "snd (pass n) = None" by simp
  have "report_loop pass n out = report_loop pass (Suc n) (out @ fst (pass n))"
    using quiet by (subst report_loop.simps) (auto split: prod.splits)
  also have "\<dots> = Some (Uncaught ((out @ fst (pass n)) @ printed pass (Suc n) m) e)"
    by (rule Suc.hyps(1) [OF d le])
  also have "(out @ fst (pass n)) @ printed pass (Suc n) m = out @ printed pass n m"
    using lt by (simp add: printed_def upt_conv_Cons)
  finally show ?case .
qed


lemma main_usage:
  "length argv < 2 \<Longrightarrow> argv \<noteq> [] \<Longrightarrow>
   main w argv = Some (Finished [''USAGE: '' @ hd argv @ '' pid''])"
  by (cases argv) (simp_all add: main_def)

lemma main_run:
  "2 \<le> length argv \<Longrightarrow> py_int w (argv ! 1) = Some pid \<Longrightarrow> main w argv = run w pid"
  by (simp add: main_def)

lemmas world_defs = calm_def interrupted_def digits_only_def

section \<open>Matched attempts\<close>

text \<open>
  C1. A thread enters \<open>pthread_mutex_lock\<close> on a mutex at time \<open>T0\<close>; other probes fire,
  none of them an entry or a return of \<open>pthread_mutex_lock\<close> in that thread; the call
  returns 0 at time \<open>T1\<close> from a call site. Then the row of \<open>locks\<close> for the thread, the
  mutex and the call site exists, its \<open>wait_time_ns\<close> has grown by \<open>T1 - T0\<close> and its
  \<open>enter_count\<close> by 1, counted from the zero row if there was none. The fields are 64-bit:
  the sum is that of the machine, and it is the sum of the numbers when the clock has not
  gone backwards and the field does not overflow. Nothing between the entry and the return
  has changed the two fields.
\<close>

theorem wait_and_enter_count_on_success:
  fixes c0 c1 :: probe_ctx and evs :: "event list" and s0 :: bpf_tables
  defines "s1 \<equiv> fire_all evs (snd (probe_mutex_lock c0 s0))"
  defines "s2 \<equiv> snd (probe_mutex_lock_return c1 s1)"
  defines "k \<equiv> \<lparr>tmk_tid = current_pid c0, tmk_mtx = PARM1 c0, tmk_lock_stack_id = stackid c1\<rparr>"
  assumes quiet: "\<forall>e\<in>set evs. \<not> attempt_of (current_pid c0) e"
    and same: "current_pid c1 = current_pid c0"
    and ok: "RC c1 = 0"
  shows "locks s2 k \<noteq> None \<and>
         wait_time_ns (row s2 k) = wait_time_ns (row s1 k) + (ktime_ns c1 - ktime_ns c0) \<and>
         enter_count (row s2 k) = enter_count (row s1 k) + 1 \<and>
         lock_time_ns (row s2 k) = lock_time_ns (row s1 k) \<and>
         wait_time_ns (row s1 k) = wait_time_ns (row s0 k) \<and>
         enter_count (row s1 k) = enter_count (row s0 k) \<and>
         (unat (ktime_ns c0) \<le> unat (ktime_ns c1) \<and>
          unat (wait_time_ns (row s1 k)) + (unat (ktime_ns c1) - unat (ktime_ns c0)) < 2 ^ 64 \<longrightarrow>
          unat (wait_time_ns (row s2 k)) =
            unat (wait_time_ns (row s1 k)) + (unat (ktime_ns c1) - unat (ktime_ns c0)))"
proof -
  have pending: "lock_start s1 (current_pid c1) = Some \<lparr>mts_mtx = PARM1 c0, mts_timestamp = ktime_ns c0\<rparr>"
    unfolding s1_def same using quiet by (simp add: fire_all_lock_start lock_fields)
  have s2: "locks s2 = (locks s1)(k \<mapsto> (row s1 k)\<lparr>wait_time_ns := wait_time_ns (row s1 k) + (ktime_ns c1 - ktime_ns c0),
              enter_count := enter_count (row s1 k) + 1\<rparr>)"
    unfolding s2_def k_def by (simp add: lock_return_hit[OF pending] ok same)
  have before: "wait_time_ns (row s1 k) = wait_time_ns (row s0 k) \<and> enter_count (row s1 k) = enter_count (row s0 k)"
    unfolding s1_def using quiet fire_all_wait_enter[of evs k "snd (probe_mutex_lock c0 s0)"]
    by (simp add: k_def row_lock)
  have w: "wait_time_ns (row s2 k) = wait_time_ns (row s1 k) + (ktime_ns c1 - ktime_ns c0)"
    by (simp add: row_def s2)
  have e: "enter_count (row s2 k) = enter_count (row s1 k) + 1"
    by (simp add: row_def s2)
  have l: "lock_time_ns (row s2 k) = lock_time_ns (row s1 k)"
    by (simp add: row_def s2)
  have a: "locks s2 k \<noteq> None"
    by (simp add: s2)
  have u: "unat (ktime_ns c0) \<le> unat (ktime_ns c1) \<and>
          unat (wait_time_ns (row s1 k)) + (unat (ktime_ns c1) - unat (ktime_ns c0)) < 2 ^ 64 \<longrightarrow>
          unat (wait_time_ns (row s2 k)) =
            unat (wait_time_ns (row s1 k)) + (unat (ktime_ns c1) - unat (ktime_ns c0))"
  proof (intro impI, elim conjE)
    assume le: "unat (ktime_ns c0) \<le> unat (ktime_ns c1)"
      and room: "unat (wait_time_ns (row s1 k)) + (unat (ktime_ns c1) - unat (ktime_ns c0)) < 2 ^ 64"
    from le have "ktime_ns c0 \<le> ktime_ns c1" by (simp add: word_le_nat_alt)
    then have d: "unat (ktime_ns c1 - ktime_ns c0) = unat (ktime_ns c1) - unat (ktime_ns c0)"
      by (rule unat_sub)
    have "unat (wait_time_ns (row s1 k) + (ktime_ns c1 - ktime_ns c0)) =
          (unat (wait_time_ns (row s1 k)) + unat (ktime_ns c1 - ktime_ns c0)) mod 2 ^ 64"
      by (simp add: unat_word_ariths)
    also have "\<dots> = unat (wait_time_ns (row s1 k)) + (unat (ktime_ns c1) - unat (ktime_ns c0))"
      using room by (simp only: d mod_less)
    finally show "unat (wait_time_ns (row s2 k)) =
            unat (wait_time_ns (row s1 k)) + (unat (ktime_ns c1) - unat (ktime_ns c0))"
      by (simp only: w)
  qed
  from a w e l before u show ?thesis by blast
qed

theorem wait_and_enter_count_on_success_witness:
  "list_all (\<lambda>e. \<not> attempt_of (current_pid at_lock) e) meanwhile \<and>
   current_pid at_lock_return = current_pid at_lock \<and> RC at_lock_return = 0 \<and>
   wait_time_ns (row (snd (probe_mutex_lock_return at_lock_return
       (fire_all meanwhile (snd (probe_mutex_lock at_lock empty_tables))))) key_1_100_2) = 50000 \<and>
   enter_count (row (snd (probe_mutex_lock_return at_lock_return
       (fire_all meanwhile (snd (probe_mutex_lock at_lock empty_tables))))) key_1_100_2) = 1"
proof -
  let ?s2 = "snd (probe_mutex_lock_return at_lock_return
       (fire_all meanwhile (snd (probe_mutex_lock at_lock empty_tables))))"
  have h1: "\<forall>e\<in>set meanwhile. \<not> attempt_of (current_pid at_lock) e"
    by (simp add: scenario_defs)
  have h2: "current_pid at_lock_return = current_pid at_lock"
    by (simp add: scenario_defs)
  have h3: "RC at_lock_return = 0"
    by (simp add: scenario_defs)
  have k: "\<lparr>tmk_tid = current_pid at_lock, tmk_mtx = PARM1 at_lock,
            tmk_lock_stack_id = stackid at_lock_return\<rparr> = key_1_100_2"
    by (simp add: scenario_defs)
  have z: "row empty_tables key_1_100_2 = new_tm_val"
    by (simp add: row_def empty_tables_def)
  have h1': "list_all (\<lambda>e. \<not> attempt_of (current_pid at_lock) e) meanwhile"
    using h1 by (simp add: list_all_iff)
  note fact = wait_and_enter_count_on_success [OF h1 h2 h3, of empty_tables, unfolded k, unfolded z]
  have d: "ktime_ns at_lock_return - ktime_ns at_lock = 50000"
    by (simp add: scenario_defs)
  from fact have w: "wait_time_ns (row ?s2 key_1_100_2) = 50000"
    and e: "enter_count (row ?s2 key_1_100_2) = 1"
    by (simp_all add: new_tm_val_def d)
  from h1' h2 h3 w e show ?thesis by blast
qed

text \<open>
  C3. The same attempt, but the call returns a value other than 0. The thread's entry in
  \<open>lock_start\<close>, still there when the call returns, is deleted; \<open>wait_time_ns\<close> of the
  row grows by \<open>T1 - T0\<close>; the slot of the wait in \<open>mutex_wait_hist\<close> counts one more
  and every other slot, as all of \<open>mutex_lock_hist\<close>, counts what it did; \<open>enter_count\<close>
  and \<open>lock_time_ns\<close> of the row are what they were; \<open>lock_end\<close> is what it was.
\<close>

theorem failed_attempt_counts_wait_only:
  fixes c0 c1 :: probe_ctx and evs :: "event list" and s0 :: bpf_tables
  defines "s1 \<equiv> fire_all evs (snd (probe_mutex_lock c0 s0))"
  defines "s2 \<equiv> snd (probe_mutex_lock_return c1 s1)"
  defines "k \<equiv> \<lparr>tmk_tid = current_pid c0, tmk_mtx = PARM1 c0, tmk_lock_stack_id = stackid c1\<rparr>"
  defines "slot \<equiv> bpf_log2l ((ktime_ns c1 - ktime_ns c0) div 1000)"
  assumes quiet: "\<forall>e\<in>set evs. \<not> attempt_of (current_pid c0) e"
    and same: "current_pid c1 = current_pid c0"
    and failed: "RC c1 \<noteq> 0"
  shows "lock_start s1 (current_pid c0) = Some \<lparr>mts_mtx = PARM1 c0, mts_timestamp = ktime_ns c0\<rparr> \<and>
         lock_start s2 (current_pid c0) = None \<and>
         wait_time_ns (row s2 k) = wait_time_ns (row s1 k) + (ktime_ns c1 - ktime_ns c0) \<and>
         mutex_wait_hist s2 = (mutex_wait_hist s1)(slot := mutex_wait_hist s1 slot + 1) \<and>
         mutex_lock_hist s2 = mutex_lock_hist s1 \<and>
         enter_count (row s2 k) = enter_count (row s1 k) \<and>
         lock_time_ns (row s2 k) = lock_time_ns (row s1 k) \<and>
         lock_end s2 = lock_end s1"
proof -
  have pending: "lock_start s1 (current_pid c1) = Some \<lparr>mts_mtx = PARM1 c0, mts_timestamp = ktime_ns c0\<rparr>"
    unfolding s1_def same using quiet by (simp add: fire_all_lock_start lock_fields)
  note hit = lock_return_hit [OF pending]
  have gone: "lock_start s2 (current_pid c0) = None"
    unfolding s2_def by (simp add: hit same)
  have rows: "locks s2 = (locks s1)(k \<mapsto> (row s1 k)\<lparr>wait_time_ns :=
                 wait_time_ns (row s1 k) + (ktime_ns c1 - ktime_ns c0)\<rparr>)"
    unfolding s2_def k_def using failed by (simp add: hit same)
  have w: "wait_time_ns (row s2 k) = wait_time_ns (row s1 k) + (ktime_ns c1 - ktime_ns c0)"
    by (simp add: row_def rows)
  have e: "enter_count (row s2 k) = enter_count (row s1 k)"
    by (simp add: row_def rows)
  have l: "lock_time_ns (row s2 k) = lock_time_ns (row s1 k)"
    by (simp add: row_def rows)
  have h: "mutex_wait_hist s2 = (mutex_wait_hist s1)(slot := mutex_wait_hist s1 slot + 1)"
    unfolding s2_def slot_def by (simp add: hit increment_def)
  have h': "mutex_lock_hist s2 = mutex_lock_hist s1"
    unfolding s2_def by (simp add: hit)
  have le: "lock_end s2 = lock_end s1"
    unfolding s2_def using failed by (simp add: hit)
  from pending gone w e l h h' le show ?thesis by (simp only: same simp_thms)
qed

theorem failed_attempt_counts_wait_only_witness:
  "list_all (\<lambda>e. \<not> attempt_of (current_pid at_lock) e) meanwhile \<and>
   current_pid at_lock_failed = current_pid at_lock \<and> RC at_lock_failed \<noteq> 0 \<and>
   lock_start (snd (probe_mutex_lock_return at_lock_failed
       (fire_all meanwhile (snd (probe_mutex_lock at_lock empty_tables))))) 1 = None \<and>
   wait_time_ns (row (snd (probe_mutex_lock_return at_lock_failed
       (fire_all meanwhile (snd (probe_mutex_lock at_lock empty_tables))))) key_1_100_2) = 50000 \<and>
   enter_count (row (snd (probe_mutex_lock_return at_lock_failed
       (fire_all meanwhile (snd (probe_mutex_lock at_lock empty_tables))))) key_1_100_2) = 0 \<and>
   mutex_wait_hist (fire_all meanwhile (snd (probe_mutex_lock at_lock empty_tables))) =
       (\<lambda>_. 0)(3 := 1) \<and>
   mutex_wait_hist (snd (probe_mutex_lock_return at_lock_failed
       (fire_all meanwhile (snd (probe_mutex_lock at_lock empty_tables))))) =
       (\<lambda>_. 0)(3 := 1, 5 := 1) \<and>
   mutex_lock_hist (snd (probe_mutex_lock_return at_lock_failed
       (fire_all meanwhile (snd (probe_mutex_lock at_lock empty_tables))))) =
       (\<lambda>_. 0)(3 := 1) \<and>
   lock_end (snd (probe_mutex_lock_return at_lock_failed
       (fire_all meanwhile (snd (probe_mutex_lock at_lock empty_tables)))))
       \<lparr>ltk_tid = 1, ltk_mtx = 0x100\<rparr> = None"
proof -
  let ?s1 = "fire_all meanwhile (snd (probe_mutex_lock at_lock empty_tables))"
  let ?s2 = "snd (probe_mutex_lock_return at_lock_failed ?s1)"
  have h1: "\<forall>e\<in>set meanwhile. \<not> attempt_of (current_pid at_lock) e"
    by (simp add: scenario_defs)
  have h2: "current_pid at_lock_failed = current_pid at_lock"
    by (simp add: scenario_defs)
  have h3: "RC at_lock_failed \<noteq> 0"
    by (simp add: scenario_defs)
  have k: "\<lparr>tmk_tid = current_pid at_lock, tmk_mtx = PARM1 at_lock,
            tmk_lock_stack_id = stackid at_lock_failed\<rparr> = key_1_100_2"
    by (simp add: scenario_defs)
  have t: "current_pid at_lock = 1"
    by (simp add: scenario_defs)
  have "locks ?s1 key_1_100_2 = None"
    by (simp add: scenario_defs handler_defs)
  then have z: "row ?s1 key_1_100_2 = new_tm_val"
    by (simp add: row_def)
  have m1: "mutex_wait_hist ?s1 = (\<lambda>_. 0)(3 := 1)"
    by (simp add: scenario_defs handler_defs bpf_log2l_values)
  have m2: "mutex_lock_hist ?s1 = (\<lambda>_. 0)(3 := 1)"
    by (simp add: scenario_defs handler_defs bpf_log2l_values)
  have e1: "lock_end ?s1 \<lparr>ltk_tid = 1, ltk_mtx = 0x100\<rparr> = None"
    by (simp add: scenario_defs handler_defs)
  have d: "ktime_ns at_lock_failed - ktime_ns at_lock = 50000"
    by (simp add: scenario_defs)
  have slot: "bpf_log2l ((50000 :: u64) div 1000) = 5"
    by (simp add: bpf_log2l_values)
  note fact = failed_attempt_counts_wait_only [OF h1 h2 h3, of empty_tables, unfolded k, unfolded z d slot m1 m2]
  from fact have g: "lock_start ?s2 1 = None"
    and w: "wait_time_ns (row ?s2 key_1_100_2) = 50000"
    and e: "enter_count (row ?s2 key_1_100_2) = 0"
    and hw: "mutex_wait_hist ?s2 = (\<lambda>_. 0)(3 := 1, 5 := 1)"
    and hl: "mutex_lock_hist ?s2 = (\<lambda>_. 0)(3 := 1)"
    and le: "lock_end ?s2 \<lparr>ltk_tid = 1, ltk_mtx = 0x100\<rparr> = None"
    by (simp_all add: new_tm_val_def t e1)
  have h1': "list_all (\<lambda>e. \<not> attempt_of (current_pid at_lock) e) meanwhile"
    using h1 by (simp add: list_all_iff)
  from h1' h2 h3 g w e m1 hw hl le show ?thesis by blast
qed

section \<open>Missed entries\<close>

text \<open>
  C5. A return of \<open>pthread_mutex_lock\<close> in a thread that has no entry in \<open>lock_start\<close>
  changes no table (no histogram, no row of \<open>locks\<close>, no entry of \<open>lock_end\<close>), and the
  handler returns 0.
\<close>

theorem lock_return_missed_entry:
  "lock_start s (current_pid ctx) = None \<Longrightarrow> probe_mutex_lock_return ctx s = (0, s)"
  by (simp add: probe_mutex_lock_return_def)

theorem lock_return_missed_entry_witness:
  "lock_start empty_tables (current_pid at_lock_return) = None \<and>
   probe_mutex_lock_return at_lock_return empty_tables = (0, empty_tables)"
  using lock_return_missed_entry [of empty_tables at_lock_return]
  by (simp add: empty_tables_def)

text \<open>
  C6. An entry of \<open>pthread_mutex_unlock\<close> for a thread and a mutex that have no entry in
  \<open>lock_end\<close> changes no table (no row of \<open>locks\<close>, no histogram), and the handler
  returns 0.
\<close>

theorem unlock_missed_lock:
  "lock_end s \<lparr>ltk_tid = current_pid ctx, ltk_mtx = PARM1 ctx\<rparr> = None \<Longrightarrow>
   probe_mutex_unlock ctx s = (0, s)"
  by (simp add: probe_mutex_unlock_def Let_def)

theorem unlock_missed_lock_witness:
  "lock_end empty_tables \<lparr>ltk_tid = current_pid at_unlock, ltk_mtx = PARM1 at_unlock\<rparr> = None \<and>
   probe_mutex_unlock at_unlock empty_tables = (0, empty_tables)"
  using unlock_missed_lock [of empty_tables at_unlock]
  by (simp add: empty_tables_def)

section \<open>Holds\<close>

text \<open>
  C7. In any run from empty tables, an entry of \<open>pthread_mutex_unlock\<close> for a thread and
  a mutex that have an entry in \<open>lock_end\<close> consumes it: after the handler the thread and
  the mutex have no entry in \<open>lock_end\<close>. (The handler returns before the delete when the
  row of \<open>locks\<close> is missing; in a run every entry of \<open>lock_end\<close> has its row.)
\<close>

theorem unlock_consumes_pending_hold:
  assumes "lock_end (fire_all evs empty_tables) \<lparr>ltk_tid = current_pid c, ltk_mtx = PARM1 c\<rparr> \<noteq> None"
  shows "lock_end (snd (probe_mutex_unlock c (fire_all evs empty_tables)))
           \<lparr>ltk_tid = current_pid c, ltk_mtx = PARM1 c\<rparr> = None"
  using assms by (intro unlock_consumes rows_cover_fire_all rows_cover_empty)

theorem unlock_consumes_pending_hold_witness:
  "lock_end (fire_all (MutexLock at_lock # meanwhile @ [MutexLockReturn at_lock_return]) empty_tables)
      \<lparr>ltk_tid = current_pid at_unlock, ltk_mtx = PARM1 at_unlock\<rparr> \<noteq> None \<and>
   lock_end (snd (probe_mutex_unlock at_unlock
      (fire_all (MutexLock at_lock # meanwhile @ [MutexLockReturn at_lock_return]) empty_tables)))
      \<lparr>ltk_tid = current_pid at_unlock, ltk_mtx = PARM1 at_unlock\<rparr> = None"
proof -
  have k: "\<lparr>ltk_tid = current_pid at_unlock, ltk_mtx = PARM1 at_unlock\<rparr> = \<lparr>ltk_tid = 1, ltk_mtx = 0x100\<rparr>"
    by (simp add: scenario_defs)
  have h: "lock_end (fire_all (MutexLock at_lock # meanwhile @ [MutexLockReturn at_lock_return]) empty_tables)
      \<lparr>ltk_tid = current_pid at_unlock, ltk_mtx = PARM1 at_unlock\<rparr> \<noteq> None"
    unfolding k scenario_lock_end by simp
  from unlock_consumes_pending_hold [OF h] h show ?thesis by blast
qed

text \<open>
  C2. A return of \<open>pthread_mutex_lock\<close> with value 0 at time \<open>T1\<close>, in a thread that has
  an entry in \<open>lock_start\<close>, stores the thread's entry for the mutex in \<open>lock_end\<close>, with
  \<open>T1\<close> and the stack id of the call site. Other probes fire, none of them an entry of
  \<open>pthread_mutex_lock\<close> or \<open>pthread_mutex_unlock\<close> in that thread on that mutex. The
  thread unlocks the mutex at time \<open>T2\<close>. Then the entry of \<open>lock_end\<close> has stayed as it
  was stored, and \<open>lock_time_ns\<close> of the row under the thread, the mutex and the stored
  stack id has grown by \<open>T2 - T1\<close>: the sum of the 64-bit fields, which is the sum of the
  numbers when the clock has not gone backwards and the field does not overflow.
\<close>

theorem lock_time_on_release:
  fixes c1 c2 :: probe_ctx and evs :: "event list" and s0 :: bpf_tables and entry :: mutex_timestamp_t
  defines "s1 \<equiv> snd (probe_mutex_lock_return c1 s0)"
  defines "s2 \<equiv> fire_all evs s1"
  defines "s3 \<equiv> snd (probe_mutex_unlock c2 s2)"
  defines "k \<equiv> \<lparr>tmk_tid = current_pid c1, tmk_mtx = mts_mtx entry, tmk_lock_stack_id = stackid c1\<rparr>"
  defines "pair \<equiv> \<lparr>ltk_tid = current_pid c1, ltk_mtx = mts_mtx entry\<rparr>"
  assumes pending: "lock_start s0 (current_pid c1) = Some entry"
    and ok: "RC c1 = 0"
    and quiet: "\<forall>e\<in>set evs. \<not> call_on (current_pid c1) (mts_mtx entry) e"
    and same: "current_pid c2 = current_pid c1" "PARM1 c2 = mts_mtx entry"
  shows "lock_end s1 pair = Some \<lparr>ltv_timestamp = ktime_ns c1, ltv_stack_id = stackid c1\<rparr> \<and>
         lock_end s2 pair = Some \<lparr>ltv_timestamp = ktime_ns c1, ltv_stack_id = stackid c1\<rparr> \<and>
         lock_end s3 pair = None \<and>
         locks s2 k \<noteq> None \<and>
         lock_time_ns (row s3 k) = lock_time_ns (row s2 k) + (ktime_ns c2 - ktime_ns c1) \<and>
         lock_time_ns (row s2 k) = lock_time_ns (row s1 k) \<and>
         (unat (ktime_ns c1) \<le> unat (ktime_ns c2) \<and>
          unat (lock_time_ns (row s2 k)) + (unat (ktime_ns c2) - unat (ktime_ns c1)) < 2 ^ 64 \<longrightarrow>
          unat (lock_time_ns (row s3 k)) =
            unat (lock_time_ns (row s2 k)) + (unat (ktime_ns c2) - unat (ktime_ns c1)))"
proof -
  note hit = lock_return_hit [OF pending]
  have e1: "lock_end s1 pair = Some \<lparr>ltv_timestamp = ktime_ns c1, ltv_stack_id = stackid c1\<rparr>"
    unfolding s1_def pair_def by (simp add: hit ok)
  have r1: "locks s1 k \<noteq> None"
    unfolding s1_def k_def by (simp add: hit)
  have idle: "\<not> waits_on s1 (current_pid c1) (mts_mtx entry)"
    unfolding s1_def by (simp add: hit waits_on_def)
  have e2: "lock_end s2 pair = Some \<lparr>ltv_timestamp = ktime_ns c1, ltv_stack_id = stackid c1\<rparr>"
    unfolding s2_def pair_def using fire_all_pair [OF quiet idle] e1 by (simp add: pair_def)
  have r2: "locks s2 k \<noteq> None"
    unfolding s2_def by (rule fire_all_locks_stay [OF r1])
  then obtain v where v: "locks s2 k = Some v" by auto
  have l2: "lock_time_ns (row s2 k) = lock_time_ns (row s1 k)"
    unfolding s2_def using quiet by (intro fire_all_lock_time) (simp add: k_def)
  have e2': "lock_end s2 \<lparr>ltk_tid = current_pid c2, ltk_mtx = PARM1 c2\<rparr> =
               Some \<lparr>ltv_timestamp = ktime_ns c1, ltv_stack_id = stackid c1\<rparr>"
    using e2 by (simp add: pair_def same)
  have v': "locks s2 \<lparr>tmk_tid = current_pid c2, tmk_mtx = PARM1 c2,
              tmk_lock_stack_id = ltv_stack_id \<lparr>ltv_timestamp = ktime_ns c1, ltv_stack_id = stackid c1\<rparr>\<rparr> = Some v"
    using v by (simp add: k_def same)
  note out = unlock_hit [OF e2' v']
  have e3: "lock_end s3 pair = None"
    unfolding s3_def pair_def by (simp add: out same)
  have l3: "lock_time_ns (row s3 k) = lock_time_ns (row s2 k) + (ktime_ns c2 - ktime_ns c1)"
    unfolding s3_def by (simp add: out row_def k_def same v [unfolded k_def])
  have u: "unat (ktime_ns c1) \<le> unat (ktime_ns c2) \<and>
          unat (lock_time_ns (row s2 k)) + (unat (ktime_ns c2) - unat (ktime_ns c1)) < 2 ^ 64 \<longrightarrow>
          unat (lock_time_ns (row s3 k)) =
            unat (lock_time_ns (row s2 k)) + (unat (ktime_ns c2) - unat (ktime_ns c1))"
  proof (intro impI, elim conjE)
    assume le: "unat (ktime_ns c1) \<le> unat (ktime_ns c2)"
      and room: "unat (lock_time_ns (row s2 k)) + (unat (ktime_ns c2) - unat (ktime_ns c1)) < 2 ^ 64"
    from le have "ktime_ns c1 \<le> ktime_ns c2" by (simp add: word_le_nat_alt)
    then have d: "unat (ktime_ns c2 - ktime_ns c1) = unat (ktime_ns c2) - unat (ktime_ns c1)"
      by (rule unat_sub)
    have "unat (lock_time_ns (row s2 k) + (ktime_ns c2 - ktime_ns c1)) =
          (unat (lock_time_ns (row s2 k)) + unat (ktime_ns c2 - ktime_ns c1)) mod 2 ^ 64"
      by (simp add: unat_word_ariths)
    also have "\<dots> = unat (lock_time_ns (row s2 k)) + (unat (ktime_ns c2) - unat (ktime_ns c1))"
      using room by (simp only: d mod_less)
    finally show "unat (lock_time_ns (row s3 k)) =
            unat (lock_time_ns (row s2 k)) + (unat (ktime_ns c2) - unat (ktime_ns c1))"
      by (simp only: l3)
  qed
  from e1 e2 e3 r2 l3 l2 u show ?thesis by blast
qed

theorem lock_time_on_release_witness:
  "lock_start (snd (probe_mutex_lock at_lock empty_tables)) (current_pid at_lock_return) =
      Some \<lparr>mts_mtx = 0x100, mts_timestamp = 0\<rparr> \<and>
   RC at_lock_return = 0 \<and>
   list_all (\<lambda>e. \<not> call_on (current_pid at_lock_return) 0x100 e) meanwhile \<and>
   current_pid at_unlock = current_pid at_lock_return \<and> PARM1 at_unlock = 0x100 \<and>
   lock_time_ns (row (snd (probe_mutex_unlock at_unlock (fire_all meanwhile
      (snd (probe_mutex_lock_return at_lock_return (snd (probe_mutex_lock at_lock empty_tables)))))))
      key_1_100_2) = 100000"
proof -
  let ?s0 = "snd (probe_mutex_lock at_lock empty_tables)"
  let ?s1 = "snd (probe_mutex_lock_return at_lock_return ?s0)"
  let ?s3 = "snd (probe_mutex_unlock at_unlock (fire_all meanwhile ?s1))"
  let ?entry = "\<lparr>mts_mtx = 0x100, mts_timestamp = 0\<rparr> :: mutex_timestamp_t"
  have h1: "lock_start ?s0 (current_pid at_lock_return) = Some ?entry"
    by (simp add: scenario_defs probe_mutex_lock_def)
  have h2: "RC at_lock_return = 0"
    by (simp add: scenario_defs)
  have h3: "\<forall>e\<in>set meanwhile. \<not> call_on (current_pid at_lock_return) (mts_mtx ?entry) e"
    by (simp add: scenario_defs)
  have h4: "current_pid at_unlock = current_pid at_lock_return"
    by (simp add: scenario_defs)
  have h5: "PARM1 at_unlock = mts_mtx ?entry"
    by (simp add: scenario_defs)
  have k: "\<lparr>tmk_tid = current_pid at_lock_return, tmk_mtx = mts_mtx ?entry,
            tmk_lock_stack_id = stackid at_lock_return\<rparr> = key_1_100_2"
    by (simp add: scenario_defs)
  have z: "lock_time_ns (row ?s1 key_1_100_2) = 0"
    by (simp add: scenario_defs handler_defs)
  have d: "ktime_ns at_unlock - ktime_ns at_lock_return = 100000"
    by (simp add: scenario_defs)
  note fact = lock_time_on_release [OF h1 h2 h3 h4 h5, unfolded k]
  from fact have "lock_time_ns (row ?s3 key_1_100_2) = 100000"
    by (simp add: z d)
  moreover have "list_all (\<lambda>e. \<not> call_on (current_pid at_lock_return) 0x100 e) meanwhile"
    using h3 by (simp add: list_all_iff)
  moreover have "PARM1 at_unlock = 0x100"
    using h5 by simp
  ultimately show ?thesis using h1 h2 h4 by blast
qed

section \<open>Histogram slots\<close>

text \<open>
  C4, as the code has it. When \<open>probe_mutex_lock_return\<close> records a wait and when
  \<open>probe_mutex_unlock\<close> records a hold, of \<open>d\<close> nanoseconds, the one slot incremented
  (of \<open>mutex_wait_hist\<close> and of \<open>mutex_lock_hist\<close>, the other histogram staying as it is)
  is \<open>bpf_log2l (d / 1000)\<close>, with the division of 64-bit unsigned integers. For a
  duration of at least 1000 ns that slot is \<open>b\<close> exactly when \<open>d\<close> lies in
  \<open>[1000 * 2^b, 1000 * 2^(b+1))\<close> ns, which is \<open>[2^b, 2^(b+1))\<close> microseconds: the
  boundaries are at the powers of two, 1023 microseconds in slot 9 and 1024 microseconds in
  slot 10. A duration below 1000 ns is 0 microseconds after the division and lands in
  slot 0.
\<close>

theorem histogram_slot_of_duration:
  fixes d b :: u64
  shows
  "(lock_start s (current_pid c) = Some entry \<longrightarrow>
      mutex_wait_hist (snd (probe_mutex_lock_return c s)) =
        increment (mutex_wait_hist s) (bpf_log2l ((ktime_ns c - mts_timestamp entry) div 1000)) \<and>
      mutex_lock_hist (snd (probe_mutex_lock_return c s)) = mutex_lock_hist s) \<and>
   (lock_end s \<lparr>ltk_tid = current_pid c, ltk_mtx = PARM1 c\<rparr> = Some lv \<and>
    locks s \<lparr>tmk_tid = current_pid c, tmk_mtx = PARM1 c, tmk_lock_stack_id = ltv_stack_id lv\<rparr> = Some v \<longrightarrow>
      mutex_lock_hist (snd (probe_mutex_unlock c s)) =
        increment (mutex_lock_hist s) (bpf_log2l ((ktime_ns c - ltv_timestamp lv) div 1000)) \<and>
      mutex_wait_hist (snd (probe_mutex_unlock c s)) = mutex_wait_hist s) \<and>
   increment hist b = hist(b := hist b + 1) \<and>
   (1000 \<le> unat d \<longrightarrow>
      (bpf_log2l (d div 1000) = b \<longleftrightarrow>
         1000 * 2 ^ unat b \<le> unat d \<and> unat d < 1000 * 2 ^ (unat b + 1))) \<and>
   (unat d < 1000 \<longrightarrow> bpf_log2l (d div 1000) = 0) \<and>
   bpf_log2l (1023000 div 1000) = 9 \<and> bpf_log2l (1024000 div 1000) = 10"
proof -
  have a: "lock_start s (current_pid c) = Some entry \<longrightarrow>
      mutex_wait_hist (snd (probe_mutex_lock_return c s)) =
        increment (mutex_wait_hist s) (bpf_log2l ((ktime_ns c - mts_timestamp entry) div 1000)) \<and>
      mutex_lock_hist (snd (probe_mutex_lock_return c s)) = mutex_lock_hist s"
    by (simp add: lock_return_hit)
  have b: "lock_end s \<lparr>ltk_tid = current_pid c, ltk_mtx = PARM1 c\<rparr> = Some lv \<and>
    locks s \<lparr>tmk_tid = current_pid c, tmk_mtx = PARM1 c, tmk_lock_stack_id = ltv_stack_id lv\<rparr> = Some v \<longrightarrow>
      mutex_lock_hist (snd (probe_mutex_unlock c s)) =
        increment (mutex_lock_hist s) (bpf_log2l ((ktime_ns c - ltv_timestamp lv) div 1000)) \<and>
      mutex_wait_hist (snd (probe_mutex_unlock c s)) = mutex_wait_hist s"
    by (simp add: unlock_hit)
  have c: "increment hist b = hist(b := hist b + 1)"
    by (simp add: increment_def)
  have e: "bpf_log2l (1023000 div 1000) = 9" "bpf_log2l (1024000 div 1000) = 10"
    by (simp_all add: bpf_log2l_values)
  from a b c e bpf_log2l_slot [of d b] bpf_log2l_sub_microsecond [of d]
  show ?thesis by blast
qed

theorem histogram_slot_of_duration_witness:
  "lock_start (snd (probe_mutex_lock at_lock empty_tables)) (current_pid at_lock_return) =
      Some \<lparr>mts_mtx = 0x100, mts_timestamp = 0\<rparr> \<and>
   mutex_wait_hist (snd (probe_mutex_lock_return at_lock_return
      (snd (probe_mutex_lock at_lock empty_tables)))) = (\<lambda>_. 0)(5 := 1) \<and>
   lock_end (fire_all [MutexLock at_lock, MutexLockReturn at_lock_return] empty_tables)
      \<lparr>ltk_tid = current_pid at_unlock, ltk_mtx = PARM1 at_unlock\<rparr> =
      Some \<lparr>ltv_timestamp = 50000, ltv_stack_id = 2\<rparr> \<and>
   locks (fire_all [MutexLock at_lock, MutexLockReturn at_lock_return] empty_tables)
      \<lparr>tmk_tid = current_pid at_unlock, tmk_mtx = PARM1 at_unlock, tmk_lock_stack_id = 2\<rparr> =
      Some \<lparr>wait_time_ns = 50000, lock_time_ns = 0, enter_count = 1\<rparr> \<and>
   mutex_lock_hist (snd (probe_mutex_unlock at_unlock
      (fire_all [MutexLock at_lock, MutexLockReturn at_lock_return] empty_tables))) = (\<lambda>_. 0)(6 := 1) \<and>
   (1000::nat) \<le> unat (50000 :: u64) \<and> bpf_log2l (50000 div 1000) = 5 \<and>
   (1000::nat) * 2 ^ 5 \<le> 50000 \<and> (50000::nat) < 1000 * 2 ^ 6 \<and>
   unat (500 :: u64) < 1000 \<and> bpf_log2l (500 div 1000) = 0"
proof -
  let ?s = "snd (probe_mutex_lock at_lock empty_tables)"
  let ?s' = "fire_all [MutexLock at_lock, MutexLockReturn at_lock_return] empty_tables"
  let ?entry = "\<lparr>mts_mtx = 0x100, mts_timestamp = 0\<rparr> :: mutex_timestamp_t"
  let ?lv = "\<lparr>ltv_timestamp = 50000, ltv_stack_id = 2\<rparr> :: mutex_lock_time_val_t"
  let ?v = "\<lparr>wait_time_ns = 50000, lock_time_ns = 0, enter_count = 1\<rparr> :: thread_mutex_val_t"
  have h: "lock_start ?s (current_pid at_lock_return) = Some ?entry"
    by (simp add: scenario_defs probe_mutex_lock_def)
  have d: "(ktime_ns at_lock_return - mts_timestamp ?entry) div 1000 = 50"
    by (simp add: scenario_defs)
  have m: "mutex_wait_hist ?s = (\<lambda>_. 0)"
    by (simp add: probe_mutex_lock_def empty_tables_def)
  have h1: "lock_end ?s' \<lparr>ltk_tid = current_pid at_unlock, ltk_mtx = PARM1 at_unlock\<rparr> = Some ?lv"
    by (simp add: scenario_defs handler_defs)
  have h2: "locks ?s' \<lparr>tmk_tid = current_pid at_unlock, tmk_mtx = PARM1 at_unlock,
              tmk_lock_stack_id = ltv_stack_id ?lv\<rparr> = Some ?v"
    by (simp add: scenario_defs handler_defs)
  have d': "(ktime_ns at_unlock - ltv_timestamp ?lv) div 1000 = 100"
    by (simp add: scenario_defs)
  have m': "mutex_lock_hist ?s' = (\<lambda>_. 0)"
    by (simp add: scenario_defs handler_defs)
  note fact = histogram_slot_of_duration [of ?s at_lock_return ?entry ?lv ?v "\<lambda>_. 0" 5 50000]
  note fact' = histogram_slot_of_duration [of ?s' at_unlock ?entry ?lv ?v "\<lambda>_. 0" 0 500]
  from fact h have w: "mutex_wait_hist (snd (probe_mutex_lock_return at_lock_return ?s)) =
      increment (\<lambda>_. 0) (bpf_log2l 50)"
    unfolding d m by blast
  from fact' h1 h2 have w': "mutex_lock_hist (snd (probe_mutex_unlock at_unlock ?s')) =
      increment (\<lambda>_. 0) (bpf_log2l 100)"
    unfolding d' m' by blast
  from fact have s5: "bpf_log2l (50000 div 1000) = 5"
    by simp
  from fact' have s0: "bpf_log2l (500 div 1000) = 0"
    by simp
  have "mutex_wait_hist (snd (probe_mutex_lock_return at_lock_return ?s)) = (\<lambda>_. 0)(5 := 1)"
    unfolding w by (simp add: increment_def bpf_log2l_values)
  moreover have "mutex_lock_hist (snd (probe_mutex_unlock at_unlock ?s')) = (\<lambda>_. 0)(6 := 1)"
    unfolding w' by (simp add: increment_def bpf_log2l_values)
  moreover have "ltv_stack_id ?lv = 2" by simp
  ultimately show ?thesis using h h1 h2 s5 s0 by simp
qed

text \<open>
  C4 as stated fails below one microsecond: a wait of 500 ns is recorded in slot 0, and
  500 ns is not in the range \<open>[2^0, 2^1)\<close> microseconds.
\<close>

theorem sub_microsecond_wait_in_slot_0:
  "ktime_ns at_lock_return_500 - ktime_ns at_lock = 500 \<and>
   mutex_wait_hist (snd (probe_mutex_lock_return at_lock_return_500
      (snd (probe_mutex_lock at_lock empty_tables)))) 0 = 1 \<and>
   \<not> (1000 * 2 ^ 0 \<le> unat (ktime_ns at_lock_return_500 - ktime_ns at_lock))"
  by (simp add: scenario_defs handler_defs bpf_log2l_values)

section \<open>The report\<close>

text \<open>
  C8. In a pass of the report the rows of \<open>locks\<close> are grouped by thread: the sections
  come in ascending order of the thread id, one for each thread that has a row, each with
  exactly the rows of its thread. Within a section the rows are in descending order of
  \<open>wait_time_ns\<close>. Three rows of one thread that are read with the wait times 300, 100
  and 200 are printed in the order 300, 200, 100.
\<close>

theorem sections_grouped_and_descending:
  "sorted_wrt (<) (map fst (thread_sections items)) \<and>
   fst ` set (thread_sections items) = grouper ` set items \<and>
   (\<forall>(tid, rows) \<in> set (thread_sections items).
      mset rows = filter_mset (\<lambda>r. grouper r = tid) (mset items) \<and>
      sorted_wrt (\<lambda>a b. wait_time_ns (snd b) \<le> wait_time_ns (snd a)) rows) \<and>
   (tmk_tid k1 = t \<and> tmk_tid k2 = t \<and> tmk_tid k3 = t \<and>
    wait_time_ns v1 = 300 \<and> wait_time_ns v2 = 100 \<and> wait_time_ns v3 = 200 \<longrightarrow>
      thread_sections [(k1, v1), (k2, v2), (k3, v3)] = [(uint t, [(k1, v1), (k3, v3), (k2, v2)])])"
proof -
  have a: "\<forall>(tid, rows) \<in> set (thread_sections items).
      mset rows = filter_mset (\<lambda>r. grouper r = tid) (mset items) \<and>
      sorted_wrt (\<lambda>a b. wait_time_ns (snd b) \<le> wait_time_ns (snd a)) rows"
  proof (intro ballI, clarify, intro conjI)
    fix tid rows
    assume sec: "(tid, rows) \<in> set (thread_sections items)"
    show "mset rows = filter_mset (\<lambda>r. grouper r = tid) (mset items)"
      unfolding section_rows [OF sec] by simp
    show "sorted_wrt (\<lambda>a b. wait_time_ns (snd b) \<le> wait_time_ns (snd a)) rows"
      by (rule section_rows_descend [OF sec])
  qed
  have b: "tmk_tid k1 = t \<and> tmk_tid k2 = t \<and> tmk_tid k3 = t \<and>
    wait_time_ns v1 = 300 \<and> wait_time_ns v2 = 100 \<and> wait_time_ns v3 = 200 \<longrightarrow>
      thread_sections [(k1, v1), (k2, v2), (k3, v3)] = [(uint t, [(k1, v1), (k3, v3), (k2, v2)])]"
    by (simp add: thread_sections_def grouper_def neg_wait_def)
  from section_tids_ascend section_tids_set a b show ?thesis by blast
qed

theorem sections_grouped_and_descending_witness:
  "(5, [row_300, row_200, row_100]) \<in> set (thread_sections snapshot) \<and>
   mset [row_300, row_200, row_100] = filter_mset (\<lambda>r. grouper r = 5) (mset snapshot) \<and>
   sorted_wrt (\<lambda>a b. wait_time_ns (snd b) \<le> wait_time_ns (snd a)) [row_300, row_200, row_100] \<and>
   tmk_tid (fst row_300) = 5 \<and> tmk_tid (fst row_100) = 5 \<and> tmk_tid (fst row_200) = 5 \<and>
   wait_time_ns (snd row_300) = 300 \<and> wait_time_ns (snd row_100) = 100 \<and>
   wait_time_ns (snd row_200) = 200 \<and>
   thread_sections [row_300, row_100, row_200] = [(5, [row_300, row_200, row_100])]"
proof -
  have m: "(5, [row_300, row_200, row_100]) \<in> set (thread_sections snapshot)"
    by (simp add: snapshot_sections)
  have h: "tmk_tid (fst row_300) = 5 \<and> tmk_tid (fst row_100) = 5 \<and> tmk_tid (fst row_200) = 5 \<and>
    wait_time_ns (snd row_300) = 300 \<and> wait_time_ns (snd row_100) = 100 \<and>
    wait_time_ns (snd row_200) = 200"
    by (simp add: snapshot_defs)
  note fact = sections_grouped_and_descending [of snapshot "fst row_300" 5 "fst row_100" "fst row_200"
      "snd row_300" "snd row_100" "snd row_200"]
  from fact m have "mset [row_300, row_200, row_100] = filter_mset (\<lambda>r. grouper r = 5) (mset snapshot) \<and>
      sorted_wrt (\<lambda>a b. wait_time_ns (snd b) \<le> wait_time_ns (snd a)) [row_300, row_200, row_100]"
    by blast
  moreover from fact h
  have "thread_sections [row_300, row_100, row_200] = [(5, [row_300, row_200, row_100])]"
    by simp
  ultimately show ?thesis using m h by blast
qed

text \<open>
  C10, as the code has it. A return of \<open>pthread_mutex_lock\<close> with a value other than 0, in
  a thread that has an entry in \<open>lock_start\<close>, creates the row of the thread, the mutex
  and the call site if there is none, with \<open>enter_count\<close> 0, \<open>lock_time_ns\<close> 0 and
  \<open>wait_time_ns\<close> the measured wait \<open>T1 - T0\<close>, which is positive exactly when the two
  clock readings differ. A snapshot that holds the row prints it in the section of its
  thread, as any other row.
\<close>

theorem failed_attempt_row:
  fixes c :: probe_ctx and s :: bpf_tables and entry :: mutex_timestamp_t
  defines "k \<equiv> \<lparr>tmk_tid = current_pid c, tmk_mtx = mts_mtx entry, tmk_lock_stack_id = stackid c\<rparr>"
  defines "v \<equiv> \<lparr>wait_time_ns = ktime_ns c - mts_timestamp entry, lock_time_ns = 0, enter_count = 0\<rparr>"
  assumes pending: "lock_start s (current_pid c) = Some entry"
    and failed: "RC c \<noteq> 0"
    and absent: "locks s k = None"
  shows "locks (snd (probe_mutex_lock_return c s)) k = Some v \<and>
         (0 < wait_time_ns v \<longleftrightarrow> ktime_ns c \<noteq> mts_timestamp entry) \<and>
         ((k, v) \<in> set items \<longrightarrow>
            (\<exists>rows. (uint (current_pid c), rows) \<in> set (thread_sections items) \<and>
                    (k, v) \<in> set rows))"
proof -
  have r: "row s k = new_tm_val"
    using absent by (simp add: row_def)
  have a: "locks (snd (probe_mutex_lock_return c s)) k = Some v"
    using failed by (simp add: lock_return_hit [OF pending] k_def [symmetric] r v_def new_tm_val_def)
  have b: "0 < wait_time_ns v \<longleftrightarrow> ktime_ns c \<noteq> mts_timestamp entry"
    by (simp add: v_def word_greater_zero_iff)
  have g: "grouper (k, v) = uint (current_pid c)"
    by (simp add: grouper_def k_def)
  have d: "(k, v) \<in> set items \<longrightarrow>
            (\<exists>rows. (uint (current_pid c), rows) \<in> set (thread_sections items) \<and>
                    (k, v) \<in> set rows)"
    using row_is_rendered [of "(k, v)" items] by (simp add: g)
  from a b d show ?thesis by blast
qed

theorem failed_attempt_row_witness:
  "lock_start (snd (probe_mutex_lock at_lock empty_tables)) (current_pid at_lock_failed) =
      Some \<lparr>mts_mtx = 0x100, mts_timestamp = 0\<rparr> \<and>
   RC at_lock_failed \<noteq> 0 \<and>
   locks (snd (probe_mutex_lock at_lock empty_tables)) key_1_100_2 = None \<and>
   locks (snd (probe_mutex_lock_return at_lock_failed (snd (probe_mutex_lock at_lock empty_tables))))
      key_1_100_2 = Some \<lparr>wait_time_ns = 50000, lock_time_ns = 0, enter_count = 0\<rparr> \<and>
   (key_1_100_2, \<lparr>wait_time_ns = 50000, lock_time_ns = 0, enter_count = 0\<rparr>) \<in>
      set [row_other, (key_1_100_2, \<lparr>wait_time_ns = 50000, lock_time_ns = 0, enter_count = 0\<rparr>)] \<and>
   (\<exists>rows. (1, rows) \<in> set (thread_sections
        [row_other, (key_1_100_2, \<lparr>wait_time_ns = 50000, lock_time_ns = 0, enter_count = 0\<rparr>)]) \<and>
      (key_1_100_2, \<lparr>wait_time_ns = 50000, lock_time_ns = 0, enter_count = 0\<rparr>) \<in> set rows)"
proof -
  let ?s = "snd (probe_mutex_lock at_lock empty_tables)"
  let ?entry = "\<lparr>mts_mtx = 0x100, mts_timestamp = 0\<rparr> :: mutex_timestamp_t"
  let ?v = "\<lparr>wait_time_ns = 50000, lock_time_ns = 0, enter_count = 0\<rparr> :: thread_mutex_val_t"
  let ?items = "[row_other, (key_1_100_2, ?v)]"
  have h1: "lock_start ?s (current_pid at_lock_failed) = Some ?entry"
    by (simp add: scenario_defs probe_mutex_lock_def)
  have h2: "RC at_lock_failed \<noteq> 0"
    by (simp add: scenario_defs)
  have k: "\<lparr>tmk_tid = current_pid at_lock_failed, tmk_mtx = mts_mtx ?entry,
            tmk_lock_stack_id = stackid at_lock_failed\<rparr> = key_1_100_2"
    by (simp add: scenario_defs)
  have h3: "locks ?s \<lparr>tmk_tid = current_pid at_lock_failed, tmk_mtx = mts_mtx ?entry,
            tmk_lock_stack_id = stackid at_lock_failed\<rparr> = None"
    by (simp add: scenario_defs handler_defs)
  have v: "\<lparr>wait_time_ns = ktime_ns at_lock_failed - mts_timestamp ?entry, lock_time_ns = 0,
             enter_count = 0\<rparr> = ?v"
    by (simp add: scenario_defs)
  have t: "uint (current_pid at_lock_failed) = 1"
    by (simp add: scenario_defs)
  have m: "(key_1_100_2, ?v) \<in> set ?items"
    by simp
  note fact = failed_attempt_row [OF h1 h2 h3, of ?items, unfolded k v t]
  from fact m h1 h2 h3 [unfolded k] show ?thesis by blast
qed

text \<open>
  C10 as stated fails when the clock reads the same at the entry and at the return: the
  row is created with \<open>wait_time_ns\<close> 0, which is not positive.
\<close>

theorem failed_attempt_row_zero_wait:
  "locks (snd (probe_mutex_lock_return at_lock_failed (snd (probe_mutex_lock at_lock_late empty_tables))))
     key_1_100_2 = Some \<lparr>wait_time_ns = 0, lock_time_ns = 0, enter_count = 0\<rparr> \<and>
   \<not> 0 < wait_time_ns \<lparr>wait_time_ns = 0, lock_time_ns = 0, enter_count = 0 :: u64\<rparr>"
  by (simp add: scenario_defs handler_defs)

section \<open>The command line\<close>

text \<open>
  C9, as the code has it. With the program name alone in \<open>sys.argv\<close> the script prints
  the one line \<open>USAGE: <program> pid\<close> and falls off its end: the exit status is 0. With
  a second entry: if \<open>int\<close> rejects it the script ends with \<open>ValueError\<close>, status 1; if
  loading the BPF text, attaching it or opening the symbols of the process raises, the
  script ends with that exception; otherwise it enters the loop of the report, which does
  not return as long as no pass raises, and ends with the exception of the first pass
  that raises (the interrupt of a terminated process, for one), after the lines printed
  up to there.
\<close>

theorem usage_or_run:
  "(length argv < 2 \<and> argv \<noteq> [] \<longrightarrow>
      main w argv = Some (Finished [''USAGE: '' @ hd argv @ '' pid'']) \<and>
      exit_status (Finished [''USAGE: '' @ hd argv @ '' pid'']) = 0) \<and>
   (2 \<le> length argv \<and> py_int w (argv ! 1) = None \<longrightarrow>
      main w argv = Some (Uncaught [] ValueError) \<and> exit_status (Uncaught [] ValueError) = 1) \<and>
   (2 \<le> length argv \<and> py_int w (argv ! 1) = Some pid \<longrightarrow>
      (bpf_load w = Some e \<longrightarrow> main w argv = Some (Uncaught [] e)) \<and>
      (bpf_load w = None \<and> bpf_attach w pid = Some e \<longrightarrow> main w argv = Some (Uncaught [] e)) \<and>
      (bpf_load w = None \<and> bpf_attach w pid = None \<and> process_symbols w pid = Some e \<longrightarrow>
         main w argv = Some (Uncaught [] e)) \<and>
      (bpf_load w = None \<and> bpf_attach w pid = None \<and> process_symbols w pid = None \<longrightarrow>
         ((\<forall>n. snd (report_pass w pid n) = None) \<longrightarrow> main w argv = None) \<and>
         (snd (report_pass w pid m) = Some e \<and> (\<forall>i<m. snd (report_pass w pid i) = None) \<longrightarrow>
            main w argv = Some (Uncaught (printed (report_pass w pid) 0 m) e))))"
proof -
  have a: "2 \<le> length argv \<and> py_int w (argv ! 1) = None \<longrightarrow>
      main w argv = Some (Uncaught [] ValueError) \<and> exit_status (Uncaught [] ValueError) = 1"
    by (simp add: main_def)
  have r1: "bpf_load w = Some e \<longrightarrow> run w pid = Some (Uncaught [] e)"
    by (simp add: run_def)
  have r2: "bpf_load w = None \<and> bpf_attach w pid = Some e \<longrightarrow> run w pid = Some (Uncaught [] e)"
    by (simp add: run_def)
  have r3: "bpf_load w = None \<and> bpf_attach w pid = None \<and> process_symbols w pid = Some e \<longrightarrow>
         run w pid = Some (Uncaught [] e)"
    by (simp add: run_def)
  have r4: "bpf_load w = None \<and> bpf_attach w pid = None \<and> process_symbols w pid = None \<longrightarrow>
         ((\<forall>n. snd (report_pass w pid n) = None) \<longrightarrow> run w pid = None) \<and>
         (snd (report_pass w pid m) = Some e \<and> (\<forall>i<m. snd (report_pass w pid i) = None) \<longrightarrow>
            run w pid = Some (Uncaught (printed (report_pass w pid) 0 m) e))"
    using report_loop_forever [of "report_pass w pid" 0 "[]"]
      report_loop_ends [of "report_pass w pid" m e 0 "[]"]
    by (simp add: run_def)
  from main_usage [of argv w] a main_run [of argv w pid] r1 r2 r3 r4 show ?thesis
    by (simp del: hd_Cons_tl)
qed

theorem usage_or_run_witness:
  "main calm [''lockstat-solution.py''] = Some (Finished [''USAGE: lockstat-solution.py pid'']) \<and>
   main calm [''lockstat-solution.py'', ''abc''] = Some (Uncaught [] ValueError) \<and>
   py_int calm ''1234'' = Some 1234 \<and>
   main (calm\<lparr>bpf_load := Some (LibraryError ''Failed to compile BPF text'')\<rparr>)
     [''lockstat-solution.py'', ''1234''] =
     Some (Uncaught [] (LibraryError ''Failed to compile BPF text'')) \<and>
   main calm [''lockstat-solution.py'', ''4321''] =
     Some (Uncaught [] (LibraryError ''Failed to attach BPF to uprobe'')) \<and>
   main (calm\<lparr>process_symbols := (\<lambda>pid. Some (LibraryError ''No such process''))\<rparr>)
     [''lockstat-solution.py'', ''1234''] =
     Some (Uncaught [] (LibraryError ''No such process'')) \<and>
   main calm [''lockstat-solution.py'', ''1234''] = None \<and>
   main interrupted [''lockstat-solution.py'', ''1234''] =
     Some (Uncaught [''thread 1'', ''thread 1''] KeyboardInterrupt)"
proof -
  let ?prog = "''lockstat-solution.py''"
  let ?load = "LibraryError ''Failed to compile BPF text''"
  let ?att = "LibraryError ''Failed to attach BPF to uprobe''"
  let ?sym = "LibraryError ''No such process''"
  have p1: "py_int calm ''1234'' = Some 1234" and p2: "py_int calm ''4321'' = Some 4321"
    and p3: "py_int calm ''abc'' = None" and p4: "py_int interrupted ''1234'' = Some 1234"
    by (simp_all add: world_defs)
  have a: "main calm [?prog] = Some (Finished [''USAGE: lockstat-solution.py pid''])"
    using usage_or_run [of "[?prog]" calm] by simp
  have b: "main calm [?prog, ''abc''] = Some (Uncaught [] ValueError)"
    using usage_or_run [of "[?prog, ''abc'']" calm] p3 by simp
  have c: "main (calm\<lparr>bpf_load := Some ?load\<rparr>) [?prog, ''1234''] = Some (Uncaught [] ?load)"
    using usage_or_run [of "[?prog, ''1234'']" "calm\<lparr>bpf_load := Some ?load\<rparr>" 1234 ?load] p1
    by (simp add: calm_def)
  have d: "main calm [?prog, ''4321''] = Some (Uncaught [] ?att)"
    using usage_or_run [of "[?prog, ''4321'']" calm 4321 ?att] p2
    by (simp add: calm_def)
  have e: "main (calm\<lparr>process_symbols := (\<lambda>pid. Some ?sym)\<rparr>) [?prog, ''1234''] =
             Some (Uncaught [] ?sym)"
    using usage_or_run [of "[?prog, ''1234'']" "calm\<lparr>process_symbols := (\<lambda>pid. Some ?sym)\<rparr>" 1234 ?sym] p1
    by (simp add: calm_def)
  have f: "main calm [?prog, ''1234''] = None"
    using usage_or_run [of "[?prog, ''1234'']" calm 1234] p1
    by (simp add: calm_def)
  have g: "main interrupted [?prog, ''1234''] = Some (Uncaught [''thread 1'', ''thread 1''] KeyboardInterrupt)"
    using usage_or_run [of "[?prog, ''1234'']" interrupted 1234 KeyboardInterrupt 2] p4
    by (simp add: calm_def interrupted_def printed_def upt_rec less_Suc_eq)
  from a b p1 c d e f g show ?thesis by blast
qed

text \<open>
  C9 as stated fails on the exit status, which is 0 after the usage line, and on the
  second half: with an argument that \<open>int\<close> rejects, or a set-up call that raises, the
  script ends at once instead of running on.
\<close>

theorem usage_status_zero_and_early_ends:
  "main calm [''lockstat-solution.py''] = Some (Finished [''USAGE: lockstat-solution.py pid'']) \<and>
   exit_status (Finished [''USAGE: lockstat-solution.py pid'']) = 0 \<and>
   main calm [''lockstat-solution.py'', ''abc''] = Some (Uncaught [] ValueError) \<and>
   main (calm\<lparr>bpf_load := Some (LibraryError ''Failed to compile BPF text'')\<rparr>)
     [''lockstat-solution.py'', ''1234''] =
     Some (Uncaught [] (LibraryError ''Failed to compile BPF text'')) \<and>
   main calm [''lockstat-solution.py'', ''4321''] =
     Some (Uncaught [] (LibraryError ''Failed to attach BPF to uprobe'')) \<and>
   main (calm\<lparr>process_symbols := (\<lambda>pid. Some (LibraryError ''No such process''))\<rparr>)
     [''lockstat-solution.py'', ''1234''] =
     Some (Uncaught [] (LibraryError ''No such process''))"
  by (simp add: main_def run_def world_defs)

end
